theory Spec2Isabelle
  imports Complex_Main "HOL-Library.Log_Nat"
begin

section \<open>Text\<close>

text \<open>
  The two scripts, \<^verbatim>\<open>static/js/main.js\<close> (the analysis page) and
  \<^verbatim>\<open>static/js/dashboard.js\<close> (the dashboard page), build text by concatenation and hand
  the CSV to a \<^verbatim>\<open>Blob\<close> of type \<^verbatim>\<open>text/csv;charset=utf-8;\<close>. Text is modelled as
  that Blob holds it: a \<^typ>\<open>string\<close> is the sequence of UTF-8 bytes, one \<^typ>\<open>char\<close> per
  byte. The Japanese literals of the scripts are spelled out byte by byte; each definition
  names the source line and the code points it encodes.
\<close>

abbreviation NL :: string where
  "NL \<equiv> [CHR 0x0A]"

definition msg_required :: string where
  \<comment> \<open>main.js line 47, the alert for a missing required field; the code points
    U+3059 U+3079 U+3066 U+306E U+5FC5 U+9808 U+9805 U+76EE U+3092 U+5165 U+529B
    U+3057 U+3066 U+304F U+3060 U+3055 U+3044 U+3002\<close>
  "msg_required =
     [CHR 0xE3, CHR 0x81, CHR 0x99, CHR 0xE3, CHR 0x81, CHR 0xB9, CHR 0xE3, CHR 0x81,
      CHR 0xA6, CHR 0xE3, CHR 0x81, CHR 0xAE, CHR 0xE5, CHR 0xBF, CHR 0x85, CHR 0xE9,
      CHR 0xA0, CHR 0x88, CHR 0xE9, CHR 0xA0, CHR 0x85, CHR 0xE7, CHR 0x9B, CHR 0xAE,
      CHR 0xE3, CHR 0x82, CHR 0x92, CHR 0xE5, CHR 0x85, CHR 0xA5, CHR 0xE5, CHR 0x8A,
      CHR 0x9B, CHR 0xE3, CHR 0x81, CHR 0x97, CHR 0xE3, CHR 0x81, CHR 0xA6, CHR 0xE3,
      CHR 0x81, CHR 0x8F, CHR 0xE3, CHR 0x81, CHR 0xA0, CHR 0xE3, CHR 0x81, CHR 0x95,
      CHR 0xE3, CHR 0x81, CHR 0x84, CHR 0xE3, CHR 0x80, CHR 0x82]"

definition msg_select_type :: string where
  \<comment> \<open>main.js line 52, the alert for an empty selection of analysis types; the code points
    U+5C11 U+306A U+304F U+3068 U+3082 U+0031 U+3064 U+306E U+5206 U+6790 U+9805
    U+76EE U+3092 U+9078 U+629E U+3057 U+3066 U+304F U+3060 U+3055 U+3044 U+3002\<close>
  "msg_select_type =
     [CHR 0xE5, CHR 0xB0, CHR 0x91, CHR 0xE3, CHR 0x81, CHR 0xAA, CHR 0xE3, CHR 0x81,
      CHR 0x8F, CHR 0xE3, CHR 0x81, CHR 0xA8, CHR 0xE3, CHR 0x82, CHR 0x82, CHR ''1'',
      CHR 0xE3, CHR 0x81, CHR 0xA4, CHR 0xE3, CHR 0x81, CHR 0xAE, CHR 0xE5, CHR 0x88,
      CHR 0x86, CHR 0xE6, CHR 0x9E, CHR 0x90, CHR 0xE9, CHR 0xA0, CHR 0x85, CHR 0xE7,
      CHR 0x9B, CHR 0xAE, CHR 0xE3, CHR 0x82, CHR 0x92, CHR 0xE9, CHR 0x81, CHR 0xB8,
      CHR 0xE6, CHR 0x8A, CHR 0x9E, CHR 0xE3, CHR 0x81, CHR 0x97, CHR 0xE3, CHR 0x81,
      CHR 0xA6, CHR 0xE3, CHR 0x81, CHR 0x8F, CHR 0xE3, CHR 0x81, CHR 0xA0, CHR 0xE3,
      CHR 0x81, CHR 0x95, CHR 0xE3, CHR 0x81, CHR 0x84, CHR 0xE3, CHR 0x80, CHR 0x82]"

definition msg_analysis_error :: string where
  \<comment> \<open>main.js line 77, the alert of the catch block; the code points
    U+5206 U+6790 U+4E2D U+306B U+30A8 U+30E9 U+30FC U+304C U+767A U+751F U+3057
    U+307E U+3057 U+305F U+3002 U+0041 U+0050 U+0049 U+30AD U+30FC U+306E U+8A2D
    U+5B9A U+3084 U+30CD U+30C3 U+30C8 U+30EF U+30FC U+30AF U+63A5 U+7D9A U+3092
    U+78BA U+8A8D U+3057 U+3066 U+304F U+3060 U+3055 U+3044 U+3002\<close>
  "msg_analysis_error =
     [CHR 0xE5, CHR 0x88, CHR 0x86, CHR 0xE6, CHR 0x9E, CHR 0x90, CHR 0xE4, CHR 0xB8,
      CHR 0xAD, CHR 0xE3, CHR 0x81, CHR 0xAB, CHR 0xE3, CHR 0x82, CHR 0xA8, CHR 0xE3,
      CHR 0x83, CHR 0xA9, CHR 0xE3, CHR 0x83, CHR 0xBC, CHR 0xE3, CHR 0x81, CHR 0x8C,
      CHR 0xE7, CHR 0x99, CHR 0xBA, CHR 0xE7, CHR 0x94, CHR 0x9F, CHR 0xE3, CHR 0x81,
      CHR 0x97, CHR 0xE3, CHR 0x81, CHR 0xBE, CHR 0xE3, CHR 0x81, CHR 0x97, CHR 0xE3,
      CHR 0x81, CHR 0x9F, CHR 0xE3, CHR 0x80, CHR 0x82, CHR ''A'', CHR ''P'', CHR ''I'',
      CHR 0xE3, CHR 0x82, CHR 0xAD, CHR 0xE3, CHR 0x83, CHR 0xBC, CHR 0xE3, CHR 0x81,
      CHR 0xAE, CHR 0xE8, CHR 0xA8, CHR 0xAD, CHR 0xE5, CHR 0xAE, CHR 0x9A, CHR 0xE3,
      CHR 0x82, CHR 0x84, CHR 0xE3, CHR 0x83, CHR 0x8D, CHR 0xE3, CHR 0x83, CHR 0x83,
      CHR 0xE3, CHR 0x83, CHR 0x88, CHR 0xE3, CHR 0x83, CHR 0xAF, CHR 0xE3, CHR 0x83,
      CHR 0xBC, CHR 0xE3, CHR 0x82, CHR 0xAF, CHR 0xE6, CHR 0x8E, CHR 0xA5, CHR 0xE7,
      CHR 0xB6, CHR 0x9A, CHR 0xE3, CHR 0x82, CHR 0x92, CHR 0xE7, CHR 0xA2, CHR 0xBA,
      CHR 0xE8, CHR 0xAA, CHR 0x8D, CHR 0xE3, CHR 0x81, CHR 0x97, CHR 0xE3, CHR 0x81,
      CHR 0xA6, CHR 0xE3, CHR 0x81, CHR 0x8F, CHR 0xE3, CHR 0x81, CHR 0xA0, CHR 0xE3,
      CHR 0x81, CHR 0x95, CHR 0xE3, CHR 0x81, CHR 0x84, CHR 0xE3, CHR 0x80, CHR 0x82]"

definition tag_analysis_error :: string where
  \<comment> \<open>main.js line 76, the console tag of the catch block; the code points
    U+5206 U+6790 U+30A8 U+30E9 U+30FC U+003A\<close>
  "tag_analysis_error =
     [CHR 0xE5, CHR 0x88, CHR 0x86, CHR 0xE6, CHR 0x9E, CHR 0x90, CHR 0xE3, CHR 0x82,
      CHR 0xA8, CHR 0xE3, CHR 0x83, CHR 0xA9, CHR 0xE3, CHR 0x83, CHR 0xBC, CHR '':'']"

definition msg_no_data :: string where
  \<comment> \<open>main.js lines 228 and 264, dashboard.js line 389: nothing to export; the code points
    U+30A8 U+30AF U+30B9 U+30DD U+30FC U+30C8 U+3059 U+308B U+30C7 U+30FC U+30BF
    U+304C U+3042 U+308A U+307E U+305B U+3093 U+3002\<close>
  "msg_no_data =
     [CHR 0xE3, CHR 0x82, CHR 0xA8, CHR 0xE3, CHR 0x82, CHR 0xAF, CHR 0xE3, CHR 0x82,
      CHR 0xB9, CHR 0xE3, CHR 0x83, CHR 0x9D, CHR 0xE3, CHR 0x83, CHR 0xBC, CHR 0xE3,
      CHR 0x83, CHR 0x88, CHR 0xE3, CHR 0x81, CHR 0x99, CHR 0xE3, CHR 0x82, CHR 0x8B,
      CHR 0xE3, CHR 0x83, CHR 0x87, CHR 0xE3, CHR 0x83, CHR 0xBC, CHR 0xE3, CHR 0x82,
      CHR 0xBF, CHR 0xE3, CHR 0x81, CHR 0x8C, CHR 0xE3, CHR 0x81, CHR 0x82, CHR 0xE3,
      CHR 0x82, CHR 0x8A, CHR 0xE3, CHR 0x81, CHR 0xBE, CHR 0xE3, CHR 0x81, CHR 0x9B,
      CHR 0xE3, CHR 0x82, CHR 0x93, CHR 0xE3, CHR 0x80, CHR 0x82]"

definition msg_sheets_error :: string where
  \<comment> \<open>main.js line 291; the code points
    U+0047 U+006F U+006F U+0067 U+006C U+0065 U+0020 U+0053 U+0068 U+0065 U+0065
    U+0074 U+0073 U+3078 U+306E U+4FDD U+5B58 U+4E2D U+306B U+30A8 U+30E9 U+30FC
    U+304C U+767A U+751F U+3057 U+307E U+3057 U+305F U+3002 U+8A2D U+5B9A U+3092
    U+78BA U+8A8D U+3057 U+3066 U+304F U+3060 U+3055 U+3044 U+3002\<close>
  "msg_sheets_error =
     [CHR ''G'', CHR ''o'', CHR ''o'', CHR ''g'', CHR ''l'', CHR ''e'', CHR '' '',
      CHR ''S'', CHR ''h'', CHR ''e'', CHR ''e'', CHR ''t'', CHR ''s'', CHR 0xE3, CHR 0x81,
      CHR 0xB8, CHR 0xE3, CHR 0x81, CHR 0xAE, CHR 0xE4, CHR 0xBF, CHR 0x9D, CHR 0xE5,
      CHR 0xAD, CHR 0x98, CHR 0xE4, CHR 0xB8, CHR 0xAD, CHR 0xE3, CHR 0x81, CHR 0xAB,
      CHR 0xE3, CHR 0x82, CHR 0xA8, CHR 0xE3, CHR 0x83, CHR 0xA9, CHR 0xE3, CHR 0x83,
      CHR 0xBC, CHR 0xE3, CHR 0x81, CHR 0x8C, CHR 0xE7, CHR 0x99, CHR 0xBA, CHR 0xE7,
      CHR 0x94, CHR 0x9F, CHR 0xE3, CHR 0x81, CHR 0x97, CHR 0xE3, CHR 0x81, CHR 0xBE,
      CHR 0xE3, CHR 0x81, CHR 0x97, CHR 0xE3, CHR 0x81, CHR 0x9F, CHR 0xE3, CHR 0x80,
      CHR 0x82, CHR 0xE8, CHR 0xA8, CHR 0xAD, CHR 0xE5, CHR 0xAE, CHR 0x9A, CHR 0xE3,
      CHR 0x82, CHR 0x92, CHR 0xE7, CHR 0xA2, CHR 0xBA, CHR 0xE8, CHR 0xAA, CHR 0x8D,
      CHR 0xE3, CHR 0x81, CHR 0x97, CHR 0xE3, CHR 0x81, CHR 0xA6, CHR 0xE3, CHR 0x81,
      CHR 0x8F, CHR 0xE3, CHR 0x81, CHR 0xA0, CHR 0xE3, CHR 0x81, CHR 0x95, CHR 0xE3,
      CHR 0x81, CHR 0x84, CHR 0xE3, CHR 0x80, CHR 0x82]"

definition msg_sheets_saved :: string where
  \<comment> \<open>main.js line 283, followed by the sheet URL; the code points
    U+0047 U+006F U+006F U+0067 U+006C U+0065 U+0020 U+0053 U+0068 U+0065 U+0065
    U+0074 U+0073 U+306B U+4FDD U+5B58 U+3057 U+307E U+3057 U+305F U+003A U+0020\<close>
  "msg_sheets_saved =
     [CHR ''G'', CHR ''o'', CHR ''o'', CHR ''g'', CHR ''l'', CHR ''e'', CHR '' '',
      CHR ''S'', CHR ''h'', CHR ''e'', CHR ''e'', CHR ''t'', CHR ''s'', CHR 0xE3, CHR 0x81,
      CHR 0xAB, CHR 0xE4, CHR 0xBF, CHR 0x9D, CHR 0xE5, CHR 0xAD, CHR 0x98, CHR 0xE3,
      CHR 0x81, CHR 0x97, CHR 0xE3, CHR 0x81, CHR 0xBE, CHR 0xE3, CHR 0x81, CHR 0x97,
      CHR 0xE3, CHR 0x81, CHR 0x9F, CHR '':'', CHR '' '']"

definition hdr_csv :: string where
  \<comment> \<open>main.js line 233, the header row; the code points
    U+30C7 U+30FC U+30BF U+7A2E U+5225 U+002C U+5024\<close>
  "hdr_csv =
     [CHR 0xE3, CHR 0x83, CHR 0x87, CHR 0xE3, CHR 0x83, CHR 0xBC, CHR 0xE3, CHR 0x82,
      CHR 0xBF, CHR 0xE7, CHR 0xA8, CHR 0xAE, CHR 0xE5, CHR 0x88, CHR 0xA5, CHR '','',
      CHR 0xE5, CHR 0x80, CHR 0xA4]"

definition lbl_total_posts :: string where
  \<comment> \<open>main.js line 236, dashboard.js line 395; the code points
    U+7DCF U+6295 U+7A3F U+6570\<close>
  "lbl_total_posts =
     [CHR 0xE7, CHR 0xB7, CHR 0x8F, CHR 0xE6, CHR 0x8A, CHR 0x95, CHR 0xE7, CHR 0xA8,
      CHR 0xBF, CHR 0xE6, CHR 0x95, CHR 0xB0]"

definition lbl_avg_engagement_rate :: string where
  \<comment> \<open>main.js line 237; the code points
    U+5E73 U+5747 U+30A8 U+30F3 U+30B2 U+30FC U+30B8 U+30E1 U+30F3 U+30C8 U+7387\<close>
  "lbl_avg_engagement_rate =
     [CHR 0xE5, CHR 0xB9, CHR 0xB3, CHR 0xE5, CHR 0x9D, CHR 0x87, CHR 0xE3, CHR 0x82,
      CHR 0xA8, CHR 0xE3, CHR 0x83, CHR 0xB3, CHR 0xE3, CHR 0x82, CHR 0xB2, CHR 0xE3,
      CHR 0x83, CHR 0xBC, CHR 0xE3, CHR 0x82, CHR 0xB8, CHR 0xE3, CHR 0x83, CHR 0xA1,
      CHR 0xE3, CHR 0x83, CHR 0xB3, CHR 0xE3, CHR 0x83, CHR 0x88, CHR 0xE7, CHR 0x8E,
      CHR 0x87]"

definition lbl_total_impressions :: string where
  \<comment> \<open>main.js line 238; the code points
    U+7DCF U+30A4 U+30F3 U+30D7 U+30EC U+30C3 U+30B7 U+30E7 U+30F3\<close>
  "lbl_total_impressions =
     [CHR 0xE7, CHR 0xB7, CHR 0x8F, CHR 0xE3, CHR 0x82, CHR 0xA4, CHR 0xE3, CHR 0x83,
      CHR 0xB3, CHR 0xE3, CHR 0x83, CHR 0x97, CHR 0xE3, CHR 0x83, CHR 0xAC, CHR 0xE3,
      CHR 0x83, CHR 0x83, CHR 0xE3, CHR 0x82, CHR 0xB7, CHR 0xE3, CHR 0x83, CHR 0xA7,
      CHR 0xE3, CHR 0x83, CHR 0xB3]"

definition lbl_follower_count :: string where
  \<comment> \<open>main.js line 239; the code points
    U+30D5 U+30A9 U+30ED U+30EF U+30FC U+6570\<close>
  "lbl_follower_count =
     [CHR 0xE3, CHR 0x83, CHR 0x95, CHR 0xE3, CHR 0x82, CHR 0xA9, CHR 0xE3, CHR 0x83,
      CHR 0xAD, CHR 0xE3, CHR 0x83, CHR 0xAF, CHR 0xE3, CHR 0x83, CHR 0xBC, CHR 0xE6,
      CHR 0x95, CHR 0xB0]"

definition hdr_engagement :: string where
  \<comment> \<open>main.js line 243, the header of the series block; the code points
    U+65E5 U+4ED8 U+002C U+30A8 U+30F3 U+30B2 U+30FC U+30B8 U+30E1 U+30F3 U+30C8
    U+7387\<close>
  "hdr_engagement =
     [CHR 0xE6, CHR 0x97, CHR 0xA5, CHR 0xE4, CHR 0xBB, CHR 0x98, CHR '','', CHR 0xE3,
      CHR 0x82, CHR 0xA8, CHR 0xE3, CHR 0x83, CHR 0xB3, CHR 0xE3, CHR 0x82, CHR 0xB2,
      CHR 0xE3, CHR 0x83, CHR 0xBC, CHR 0xE3, CHR 0x82, CHR 0xB8, CHR 0xE3, CHR 0x83,
      CHR 0xA1, CHR 0xE3, CHR 0x83, CHR 0xB3, CHR 0xE3, CHR 0x83, CHR 0x88, CHR 0xE7,
      CHR 0x8E, CHR 0x87]"

definition hdr_dashboard :: string where
  \<comment> \<open>dashboard.js line 394, the header row; the code points
    U+30E1 U+30C8 U+30EA U+30C3 U+30AF U+002C U+5024\<close>
  "hdr_dashboard =
     [CHR 0xE3, CHR 0x83, CHR 0xA1, CHR 0xE3, CHR 0x83, CHR 0x88, CHR 0xE3, CHR 0x83,
      CHR 0xAA, CHR 0xE3, CHR 0x83, CHR 0x83, CHR 0xE3, CHR 0x82, CHR 0xAF, CHR '','',
      CHR 0xE5, CHR 0x80, CHR 0xA4]"

definition lbl_total_likes :: string where
  \<comment> \<open>dashboard.js line 396; the code points
    U+7DCF U+3044 U+3044 U+306D U+6570\<close>
  "lbl_total_likes =
     [CHR 0xE7, CHR 0xB7, CHR 0x8F, CHR 0xE3, CHR 0x81, CHR 0x84, CHR 0xE3, CHR 0x81,
      CHR 0x84, CHR 0xE3, CHR 0x81, CHR 0xAD, CHR 0xE6, CHR 0x95, CHR 0xB0]"

definition lbl_total_comments :: string where
  \<comment> \<open>dashboard.js line 397; the code points
    U+7DCF U+30B3 U+30E1 U+30F3 U+30C8 U+6570\<close>
  "lbl_total_comments =
     [CHR 0xE7, CHR 0xB7, CHR 0x8F, CHR 0xE3, CHR 0x82, CHR 0xB3, CHR 0xE3, CHR 0x83,
      CHR 0xA1, CHR 0xE3, CHR 0x83, CHR 0xB3, CHR 0xE3, CHR 0x83, CHR 0x88, CHR 0xE6,
      CHR 0x95, CHR 0xB0]"

definition lbl_avg_engagement :: string where
  \<comment> \<open>dashboard.js line 398; the code points
    U+5E73 U+5747 U+30A8 U+30F3 U+30B2 U+30FC U+30B8 U+30E1 U+30F3 U+30C8\<close>
  "lbl_avg_engagement =
     [CHR 0xE5, CHR 0xB9, CHR 0xB3, CHR 0xE5, CHR 0x9D, CHR 0x87, CHR 0xE3, CHR 0x82,
      CHR 0xA8, CHR 0xE3, CHR 0x83, CHR 0xB3, CHR 0xE3, CHR 0x82, CHR 0xB2, CHR 0xE3,
      CHR 0x83, CHR 0xBC, CHR 0xE3, CHR 0x82, CHR 0xB8, CHR 0xE3, CHR 0x83, CHR 0xA1,
      CHR 0xE3, CHR 0x83, CHR 0xB3, CHR 0xE3, CHR 0x83, CHR 0x88]"

definition hdr_dashboard_engagement :: string where
  \<comment> \<open>dashboard.js line 402, the header of the series block; the code points
    U+65E5 U+4ED8 U+002C U+30A8 U+30F3 U+30B2 U+30FC U+30B8 U+30E1 U+30F3 U+30C8\<close>
  "hdr_dashboard_engagement =
     [CHR 0xE6, CHR 0x97, CHR 0xA5, CHR 0xE4, CHR 0xBB, CHR 0x98, CHR '','', CHR 0xE3,
      CHR 0x82, CHR 0xA8, CHR 0xE3, CHR 0x83, CHR 0xB3, CHR 0xE3, CHR 0x82, CHR 0xB2,
      CHR 0xE3, CHR 0x83, CHR 0xBC, CHR 0xE3, CHR 0x82, CHR 0xB8, CHR 0xE3, CHR 0x83,
      CHR 0xA1, CHR 0xE3, CHR 0x83, CHR 0xB3, CHR 0xE3, CHR 0x83, CHR 0x88]"

section \<open>JavaScript numbers\<close>

text \<open>
  Every figure of the wire format is a JSON number, which the page holds as a binary64
  value. A finite binary64 value is identified here by the decimal numeral that
  \<^verbatim>\<open>Number::toString\<close> prints for it: \<open>Dec m e\<close> stands for the value printed with
  the digits of \<open>m\<close> scaled by \<open>10 ^ e\<close> (the sign is the sign of \<open>m\<close>). Each finite
  binary64 value has exactly one such numeral once trailing zeros of \<open>m\<close> are dropped, so
  printing is exact by construction, and the binary value that \<^verbatim>\<open>toFixed\<close>, \<open>>=\<close> and
  \<open>/\<close> work on is recovered by rounding the numeral to binary64 (\<open>dbl\<close>). A numeral that no
  binary64 value prints (more than 17 significant digits, or outside the binary64 range) is
  accepted by the type but is not the image of a JavaScript number. Negative zero, NaN and
  the infinities cannot come out of \<^verbatim>\<open>response.json()\<close> as a figure and are left out.
\<close>

datatype jsnum = Dec (mant: int) (expo: int)

definition digit_char :: "int \<Rightarrow> char" where
  "digit_char d = ''0123456789'' ! nat d"

text \<open>The decimal digits of a non-negative integer, most significant first.\<close>

function show_dec :: "int \<Rightarrow> string" where
  "show_dec n = (if n < 10 then [digit_char n] else show_dec (n div 10) @ [digit_char (n mod 10)])"
  by pat_completeness auto
termination
  by (relation "measure nat") auto

declare show_dec.simps [simp del]

function strip_zeros :: "int \<Rightarrow> int \<Rightarrow> int \<times> int" where
  "strip_zeros m e =
     (if 0 < m \<and> m mod 10 = 0 then strip_zeros (m div 10) (e + 1) else (m, e))"
  by pat_completeness auto
termination
  by (relation "measure (\<lambda>(m, e). nat m)") auto

declare strip_zeros.simps [simp del]

text \<open>
  \<^verbatim>\<open>Number::toString\<close> (ECMA-262, radix 10) for a positive value with digits \<open>s\<close>,
  \<open>k\<close> of them, and decimal point position \<open>n\<close>: an integer up to 21 digits is written
  out, a fraction down to \<open>1e-6\<close> is written with a decimal point, everything else in
  exponent notation.
\<close>

definition ToString_pos :: "int \<Rightarrow> int \<Rightarrow> string" where
  "ToString_pos m e =
     (case strip_zeros m e of (s, e') \<Rightarrow>
        let ds = show_dec s; k = int (length ds); n = k + e' in
        if k \<le> n \<and> n \<le> 21 then ds @ replicate (nat (n - k)) (CHR ''0'')
        else if 0 < n \<and> n \<le> 21 then take (nat n) ds @ ''.'' @ drop (nat n) ds
        else if - 6 < n \<and> n \<le> 0 then ''0.'' @ replicate (nat (- n)) (CHR ''0'') @ ds
        else
          let ex = n - 1;
              sgn = (if ex < 0 then ''-'' else ''+'');
              es = show_dec \<bar>ex\<bar>
          in if k = 1 then ds @ ''e'' @ sgn @ es
             else take 1 ds @ ''.'' @ drop 1 ds @ ''e'' @ sgn @ es)"

definition ToString :: "jsnum \<Rightarrow> string" where
  "ToString x =
     (case x of Dec m e \<Rightarrow>
        if m = 0 then ''0''
        else if m < 0 then ''-'' @ ToString_pos (- m) e
        else ToString_pos m e)"

subsection \<open>The binary64 value\<close>

definition pow2 :: "int \<Rightarrow> rat" where
  "pow2 e = (if 0 \<le> e then 2 ^ nat e else 1 / 2 ^ nat (- e))"

definition pow10 :: "int \<Rightarrow> rat" where
  "pow10 e = (if 0 \<le> e then 10 ^ nat e else 1 / 10 ^ nat (- e))"

text \<open>\<open>ilog2 x\<close> is the binary exponent of a positive \<open>x\<close>: \<open>2 ^ ilog2 x \<le> x < 2 ^ (ilog2 x + 1)\<close>.\<close>

definition ilog2 :: "rat \<Rightarrow> int" where
  "ilog2 x = (if 1 \<le> x then bitlen \<lfloor>x\<rfloor> - 1 else - bitlen (\<lceil>1 / x\<rceil> - 1))"

definition round_half_even :: "rat \<Rightarrow> int" where
  "round_half_even q =
     (let f = \<lfloor>q\<rfloor>; r = q - of_int f in
      if r < 1 / 2 then f else if 1 / 2 < r then f + 1 else if even f then f else f + 1)"

text \<open>
  \<open>rd x\<close> is the binary64 value nearest to the rational \<open>x\<close>, ties to the even significand:
  the spacing of binary64 values around \<open>x\<close> is \<open>2 ^ (ilog2 x - 52)\<close>, and \<open>2 ^ (- 1074)\<close>
  among the subnormal values. Overflow to infinity is not modelled.
\<close>

definition rd_pos :: "rat \<Rightarrow> rat" where
  "rd_pos x = (let u = pow2 (max (ilog2 x - 52) (- 1074)) in of_int (round_half_even (x / u)) * u)"

definition rd :: "rat \<Rightarrow> rat" where
  "rd x = (if x = 0 then 0 else if x < 0 then - rd_pos (- x) else rd_pos x)"

definition dbl :: "jsnum \<Rightarrow> rat" where
  "dbl x = (case x of Dec m e \<Rightarrow> rd (of_int m * pow10 e))"

text \<open>The operator \<open>/\<close>: the exact quotient, rounded to binary64.\<close>

definition fdiv :: "rat \<Rightarrow> rat \<Rightarrow> rat" where
  "fdiv x y = rd (x / y)"

text \<open>Truthiness of a number, as \<open>||\<close>, \<open>?:\<close> and \<open>if\<close> test it: zero is falsy.\<close>

definition truthy :: "jsnum \<Rightarrow> bool" where
  "truthy x = (dbl x \<noteq> 0)"

subsection \<open>The numeral of a computed value\<close>

text \<open>
  A quotient is a binary64 value with no numeral at hand. \<^verbatim>\<open>toFixed\<close> prints such a value
  through \<^verbatim>\<open>Number::toString\<close> only from \<open>1e21\<close> upwards, where every binary64 value is
  an integer \<open>N\<close> of \<open>n\<close> digits. Its numeral is the shortest one that rounds back to
  \<open>N\<close>: for \<open>k = 1, 2, ...\<close> digits the two \<open>k\<close>-digit neighbours of \<open>N\<close> are tried, the
  nearer one first.
\<close>

function shortest_from :: "int \<Rightarrow> nat \<Rightarrow> nat \<Rightarrow> jsnum" where
  "shortest_from N n k =
     (if n \<le> k then Dec N 0
      else
        let p = 10 ^ (n - k);
            s = N div p;
            lo = (rd (of_int (s * p)) = of_int N);
            hi = (rd (of_int ((s + 1) * p)) = of_int N);
            dlo = N - s * p;
            dhi = (s + 1) * p - N
        in if lo \<and> hi then
             (if dlo < dhi then Dec s (int (n - k))
              else if dhi < dlo then Dec (s + 1) (int (n - k))
              else if even s then Dec s (int (n - k)) else Dec (s + 1) (int (n - k)))
           else if lo then Dec s (int (n - k))
           else if hi then Dec (s + 1) (int (n - k))
           else shortest_from N n (Suc k))"
  by pat_completeness auto
termination
  by (relation "measure (\<lambda>(N, n, k). n - k)") auto

declare shortest_from.simps [simp del]

definition numeral_of :: "rat \<Rightarrow> jsnum" where
  "numeral_of x = (let N = \<lfloor>x\<rfloor> in shortest_from N (length (show_dec N)) 1)"

subsection \<open>\<^verbatim>\<open>Number.prototype.toFixed\<close>\<close>

text \<open>
  ECMA-262: for \<open>x\<close> below \<open>1e21\<close> let \<open>n\<close> be the integer for which \<open>n / 10 ^ f - x\<close> is
  as close to zero as possible, the larger one of two; its digits are padded with zeros on
  the left to \<open>f + 1\<close> characters and the point is put before the last \<open>f\<close> of them.
\<close>

definition fixed_digits :: "nat \<Rightarrow> int \<Rightarrow> string" where
  "fixed_digits f n =
     (let m = show_dec n;
          m' = (if f \<noteq> 0 \<and> length m \<le> f then replicate (f + 1 - length m) (CHR ''0'') @ m else m)
      in if f = 0 then m'
         else take (length m' - f) m' @ ''.'' @ drop (length m' - f) m')"

definition toFixed :: "nat \<Rightarrow> rat \<Rightarrow> string" where
  "toFixed f x =
     (let s = (if x < 0 then ''-'' else '''');
          y = \<bar>x\<bar>
      in if 10 ^ 21 \<le> y then s @ ToString (numeral_of y)
         else s @ fixed_digits f \<lfloor>y * 10 ^ f + 1 / 2\<rfloor>)"

section \<open>Format large numbers\<close>

text \<open>
  \<^verbatim>\<open>formatNumber\<close> of main.js (lines 216 to 223):
  \<^verbatim>\<open>
  function formatNumber(num) {
      if (num >= 1000000) {
          return (num / 1000000).toFixed(1) + 'M';
      } else if (num >= 1000) {
          return (num / 1000).toFixed(1) + 'K';
      }
      return num.toString();
  }
  \<close>
\<close>

definition formatNumber :: "jsnum \<Rightarrow> string" where
  "formatNumber num =
     (if 1000000 \<le> dbl num then toFixed 1 (fdiv (dbl num) 1000000) @ ''M''
      else if 1000 \<le> dbl num then toFixed 1 (fdiv (dbl num) 1000) @ ''K''
      else ToString num)"


section \<open>The analysis result\<close>

text \<open>
  The object that \<^verbatim>\<open>/api/analyze\<close> returns and both pages consume. A property that is
  missing from the object (\<^verbatim>\<open>undefined\<close> in the scripts) is \<open>None\<close>. The scripts read
  \<^verbatim>\<open>stats\<close> with six figures, and \<^verbatim>\<open>engagement_data\<close> and \<^verbatim>\<open>timing_data\<close>, each
  with the arrays \<^verbatim>\<open>labels\<close> and \<^verbatim>\<open>values\<close> (\<open>vals\<close> below).
\<close>

record Stats =
  total_posts :: "jsnum option"
  avg_engagement :: "jsnum option"
  total_impressions :: "jsnum option"
  follower_count :: "jsnum option"
  total_likes :: "jsnum option"
  total_comments :: "jsnum option"

record Series =
  labels :: "string list option"
  vals :: "jsnum list option"

record AnalysisResult =
  stats :: "Stats option"
  engagement_data :: "Series option"
  timing_data :: "Series option"

text \<open>An uncaught \<^verbatim>\<open>TypeError\<close>: a property read from \<^verbatim>\<open>undefined\<close>.\<close>

datatype js_error = TypeError

section \<open>The browser\<close>

text \<open>
  What a script does to the world outside its variables is recorded in the state: the
  charts constructed with \<^verbatim>\<open>new Chart\<close> (newest first) and the ones whose
  \<^verbatim>\<open>destroy()\<close> has run, the alerts shown, the lines written with
  \<^verbatim>\<open>console.error\<close>, the requests sent with \<^verbatim>\<open>fetch\<close>, the files downloaded
  (name and content) and the windows opened.
\<close>

record form_data =
  platform :: "string option"
  username :: "string option"
  period :: "string option"
  analysis_types :: "string list"

datatype body = AnalyzeRequest form_data | SheetsRequest AnalysisResult

record Chart =
  chart_id :: nat
  canvas :: string
  chart_type :: string
  chart_labels :: "string list option"
  chart_data :: "jsnum list option"

record browser =
  created :: "Chart list"
  destroyed :: "nat list"
  alerts :: "string list"
  console :: "string list"
  requests :: "(string \<times> body) list"
  downloads :: "(string \<times> string) list"
  opened :: "string list"

definition alert :: "string \<Rightarrow> 'a browser_scheme \<Rightarrow> 'a browser_scheme" where
  "alert msg s = s\<lparr>alerts := alerts s @ [msg]\<rparr>"

definition console_error :: "string \<Rightarrow> 'a browser_scheme \<Rightarrow> 'a browser_scheme" where
  "console_error tag s = s\<lparr>console := console s @ [tag]\<rparr>"

definition fetch :: "string \<Rightarrow> body \<Rightarrow> 'a browser_scheme \<Rightarrow> 'a browser_scheme" where
  "fetch url b s = s\<lparr>requests := requests s @ [(url, b)]\<rparr>"

text \<open>
  The reply to a \<^verbatim>\<open>fetch\<close> is an input of the model: the promise rejects
  (\<open>NetworkError\<close>), or it resolves to a response with its \<^verbatim>\<open>ok\<close> flag, its status and
  the value of \<^verbatim>\<open>response.json()\<close>, \<open>None\<close> when the body does not parse.
\<close>

datatype 'a response = NetworkError | Response bool nat "'a option"

text \<open>
  \<^verbatim>\<open>new Chart(ctx, config)\<close> makes a chart object on a canvas; the object is identified
  by the number of charts made before it. \<^verbatim>\<open>chart.destroy()\<close> releases the canvas.
\<close>

definition new_Chart ::
  "string \<Rightarrow> string \<Rightarrow> string list option \<Rightarrow> jsnum list option \<Rightarrow> 'a browser_scheme \<Rightarrow> Chart" where
  "new_Chart cv ty ls ds s =
     \<lparr>chart_id = length (created s), canvas = cv, chart_type = ty,
      chart_labels = ls, chart_data = ds\<rparr>"

definition register :: "Chart \<Rightarrow> 'a browser_scheme \<Rightarrow> 'a browser_scheme" where
  "register c s = s\<lparr>created := c # created s\<rparr>"

definition destroy :: "Chart \<Rightarrow> 'a browser_scheme \<Rightarrow> 'a browser_scheme" where
  "destroy c s = s\<lparr>destroyed := chart_id c # destroyed s\<rparr>"

text \<open>The charts alive on a canvas, and the chart made last for it.\<close>

definition live_on :: "string \<Rightarrow> 'a browser_scheme \<Rightarrow> Chart list" where
  "live_on cv s = filter (\<lambda>c. canvas c = cv \<and> chart_id c \<notin> set (destroyed s)) (created s)"

definition latest_on :: "string \<Rightarrow> 'a browser_scheme \<Rightarrow> Chart option" where
  "latest_on cv s = (case filter (\<lambda>c. canvas c = cv) (created s) of [] \<Rightarrow> None | c # _ \<Rightarrow> Some c)"

subsection \<open>The clock\<close>

text \<open>
  \<^verbatim>\<open>new Date()\<close> is an input of the model, given by its UTC fields (the month counted
  from 1). \<^verbatim>\<open>toISOString\<close> writes \<^verbatim>\<open>YYYY-MM-DDTHH:mm:ss.sssZ\<close>, and a year beyond 9999
  with a sign and six digits. \<^verbatim>\<open>split('T')[0]\<close> is the text before the first \<open>T\<close>.
\<close>

record Date =
  year :: nat
  month :: nat
  day :: nat
  hours :: nat
  minutes :: nat
  seconds :: nat
  milliseconds :: nat

definition pad :: "nat \<Rightarrow> nat \<Rightarrow> string" where
  "pad w n = (let ds = show_dec (int n) in replicate (w - length ds) (CHR ''0'') @ ds)"

definition toISOString :: "Date \<Rightarrow> string" where
  "toISOString d =
     (if year d \<le> 9999 then pad 4 (year d) else ''+'' @ pad 6 (year d))
     @ ''-'' @ pad 2 (month d) @ ''-'' @ pad 2 (day d)
     @ ''T'' @ pad 2 (hours d) @ '':'' @ pad 2 (minutes d) @ '':'' @ pad 2 (seconds d)
     @ ''.'' @ pad 3 (milliseconds d) @ ''Z''"

definition split_first :: "char \<Rightarrow> string \<Rightarrow> string" where
  "split_first sep s = takeWhile (\<lambda>c. c \<noteq> sep) s"

definition download :: "string \<Rightarrow> string \<Rightarrow> 'a browser_scheme \<Rightarrow> 'a browser_scheme" where
  "download name content s = s\<lparr>downloads := downloads s @ [(name, content)]\<rparr>"

section \<open>The analysis page: main.js\<close>

text \<open>
  The state of the page: the two global variables of the script, the result stored in
  \<^verbatim>\<open>window.currentAnalysisData\<close>, the text of the four statistics elements and the
  \<^verbatim>\<open>style.display\<close> of the loading spinner and of the results section.
\<close>

record page = browser +
  engagementChart :: "Chart option"
  timingChart :: "Chart option"
  currentAnalysisData :: "AnalysisResult option"
  totalPosts :: string
  avgEngagement :: string
  totalImpressions :: string
  followerCount :: string
  loading_display :: string
  resultsSection_display :: string

text \<open>
  The page as it loads: no chart, no stored result. What the elements show before the first
  analysis is set by the template, which is not part of the scripts; \<open>-\<close> and \<open>none\<close>
  stand for it, and nothing below depends on them.
\<close>

definition page_init :: page where
  "page_init =
     \<lparr>created = [], destroyed = [], alerts = [], console = [], requests = [], downloads = [],
      opened = [], engagementChart = None, timingChart = None, currentAnalysisData = None,
      totalPosts = ''-'', avgEngagement = ''-'', totalImpressions = ''-'', followerCount = ''-'',
      loading_display = ''none'', resultsSection_display = ''none''\<rparr>"

definition showLoading :: "page \<Rightarrow> page" where
  "showLoading s = s\<lparr>loading_display := ''block'', resultsSection_display := ''none''\<rparr>"

definition hideLoading :: "page \<Rightarrow> page" where
  "hideLoading s = s\<lparr>loading_display := ''none''\<rparr>"

text \<open>
  \<^verbatim>\<open>createEngagementChart\<close> (lines 123 to 169) and \<^verbatim>\<open>createTimingChart\<close> (lines 172
  to 213): destroy the chart the global variable holds, if any, then construct a new one
  from the series as it is and store it in the variable.
\<close>

definition createEngagementChart :: "Series \<Rightarrow> page \<Rightarrow> page" where
  "createEngagementChart data s =
     (let s1 = (case engagementChart s of Some c \<Rightarrow> destroy c s | None \<Rightarrow> s);
          c = new_Chart ''engagementChart'' ''line'' (labels data) (vals data) s1
      in (register c s1)\<lparr>engagementChart := Some c\<rparr>)"

definition createTimingChart :: "Series \<Rightarrow> page \<Rightarrow> page" where
  "createTimingChart data s =
     (let s1 = (case timingChart s of Some c \<Rightarrow> destroy c s | None \<Rightarrow> s);
          c = new_Chart ''timingChart'' ''bar'' (labels data) (vals data) s1
      in (register c s1)\<lparr>timingChart := Some c\<rparr>)"

text \<open>
  \<^verbatim>\<open>displayResults\<close> (lines 95 to 120). The four statistics are written with
  \<^verbatim>\<open>
  ... textContent = data.stats.total_posts || '-';
  ... textContent = data.stats.avg_engagement ? `${data.stats.avg_engagement.toFixed(2)}%` : '-';
  ... textContent = data.stats.total_impressions ? formatNumber(data.stats.total_impressions) : '-';
  ... textContent = data.stats.follower_count ? formatNumber(data.stats.follower_count) : '-';
  \<close>
  so a figure that is missing or zero is shown as \<open>'-'\<close>. A result without
  \<^verbatim>\<open>stats\<close> raises at the first of these lines, before anything is written.
\<close>

definition shown :: "(jsnum \<Rightarrow> string) \<Rightarrow> jsnum option \<Rightarrow> string" where
  "shown f v = (case v of Some x \<Rightarrow> if truthy x then f x else ''-'' | None \<Rightarrow> ''-'')"

definition displayResults :: "AnalysisResult \<Rightarrow> page \<Rightarrow> js_error + page" where
  "displayResults data s =
     (case stats data of
        None \<Rightarrow> Inl TypeError
      | Some st \<Rightarrow>
          let s1 = s\<lparr>totalPosts := shown ToString (total_posts st),
                     avgEngagement := shown (\<lambda>x. toFixed 2 (dbl x) @ ''%'') (avg_engagement st),
                     totalImpressions := shown formatNumber (total_impressions st),
                     followerCount := shown formatNumber (follower_count st)\<rparr>;
              s2 = (case engagement_data data of Some d \<Rightarrow> createEngagementChart d s1 | None \<Rightarrow> s1);
              s3 = (case timing_data data of Some d \<Rightarrow> createTimingChart d s2 | None \<Rightarrow> s2)
          in Inr (s3\<lparr>currentAnalysisData := Some data, resultsSection_display := ''block''\<rparr>))"

text \<open>
  \<^verbatim>\<open>handleFormSubmit\<close> (lines 34 to 81). \<^verbatim>\<open>FormData.get\<close> gives \<^verbatim>\<open>null\<close> for a field
  the form does not have and the text of the field otherwise; \<open>!\<close> holds of \<^verbatim>\<open>null\<close> and
  of the empty text.
\<close>

definition missing :: "string option \<Rightarrow> bool" where
  "missing v = (case v of None \<Rightarrow> True | Some t \<Rightarrow> t = [])"

definition analysis_failed :: "page \<Rightarrow> page" where
  "analysis_failed s = alert msg_analysis_error (console_error tag_analysis_error s)"

definition handleFormSubmit :: "form_data \<Rightarrow> AnalysisResult response \<Rightarrow> page \<Rightarrow> page" where
  "handleFormSubmit data reply s =
     (if missing (platform data) \<or> missing (username data) \<or> missing (period data)
      then alert msg_required s
      else if length (analysis_types data) = 0
      then alert msg_select_type s
      else
        let s1 = showLoading s;
            s2 = fetch ''/api/analyze'' (AnalyzeRequest data) s1;
            s3 = (case reply of
                    NetworkError \<Rightarrow> analysis_failed s2
                  | Response ok status js \<Rightarrow>
                      if \<not> ok then analysis_failed s2
                      else (case js of
                              None \<Rightarrow> analysis_failed s2
                            | Some result \<Rightarrow>
                                (case displayResults result s2 of
                                   Inl e \<Rightarrow> analysis_failed s2
                                 | Inr s' \<Rightarrow> s')))
        in hideLoading s3)"

text \<open>
  \<^verbatim>\<open>exportToCSV\<close> (lines 226 to 259):
  \<^verbatim>\<open>
  let csv = 'DATA-KIND,VALUE\n';
  csv += `TOTAL-POSTS,${data.stats.total_posts || 0}\n`;
  csv += `AVG-ENGAGEMENT-RATE,${data.stats.avg_engagement || 0}%\n`;
  csv += `TOTAL-IMPRESSIONS,${data.stats.total_impressions || 0}\n`;
  csv += `FOLLOWERS,${data.stats.follower_count || 0}\n`;
  if (data.engagement_data) {
      csv += '\nDATE,ENGAGEMENT-RATE\n';
      for (let i = 0; i < data.engagement_data.labels.length; i++) {
          csv += `${data.engagement_data.labels[i]},${data.engagement_data.values[i]}\n`;
      }
  }
  \<close>
  with the Japanese labels in place of the capitals. A figure that is missing or zero is
  written as \<open>0\<close>; a value the array does not have is written as \<open>undefined\<close>; reading
  \<^verbatim>\<open>labels.length\<close> or \<^verbatim>\<open>values[i]\<close> of a missing array raises.
\<close>

definition or0 :: "jsnum option \<Rightarrow> string" where
  "or0 v = (case v of Some x \<Rightarrow> if truthy x then ToString x else ''0'' | None \<Rightarrow> ''0'')"

function csv_loop :: "nat \<Rightarrow> string list \<Rightarrow> jsnum list option \<Rightarrow> string \<Rightarrow> js_error + string" where
  "csv_loop i ls vs csv =
     (if i < length ls then
        (case vs of
           None \<Rightarrow> Inl TypeError
         | Some v \<Rightarrow>
             csv_loop (Suc i) ls vs
               (csv @ ls ! i @ '','' @ (if i < length v then ToString (v ! i) else ''undefined'') @ NL))
      else Inr csv)"
  by pat_completeness auto
termination
  by (relation "measure (\<lambda>(i, ls, vs, csv). length ls - i)") auto

declare csv_loop.simps [simp del]

definition csv_stats :: "Stats \<Rightarrow> string" where
  "csv_stats st =
     (let csv = hdr_csv @ NL;
          csv = csv @ lbl_total_posts @ '','' @ or0 (total_posts st) @ NL;
          csv = csv @ lbl_avg_engagement_rate @ '','' @ or0 (avg_engagement st) @ ''%'' @ NL;
          csv = csv @ lbl_total_impressions @ '','' @ or0 (total_impressions st) @ NL;
          csv = csv @ lbl_follower_count @ '','' @ or0 (follower_count st) @ NL
      in csv)"

definition csv_text :: "AnalysisResult \<Rightarrow> js_error + string" where
  "csv_text data =
     (case stats data of
        None \<Rightarrow> Inl TypeError
      | Some st \<Rightarrow>
          (case engagement_data data of
             None \<Rightarrow> Inr (csv_stats st)
           | Some ed \<Rightarrow>
               (case labels ed of
                  None \<Rightarrow> Inl TypeError
                | Some ls \<Rightarrow> csv_loop 0 ls (vals ed) (csv_stats st @ NL @ hdr_engagement @ NL))))"

definition exportToCSV :: "Date \<Rightarrow> page \<Rightarrow> js_error + page" where
  "exportToCSV now s =
     (case currentAnalysisData s of
        None \<Rightarrow> Inr (alert msg_no_data s)
      | Some data \<Rightarrow>
          (case csv_text data of
             Inl e \<Rightarrow> Inl e
           | Inr csv \<Rightarrow>
               Inr (download (''sns_analysis_'' @ split_first (CHR ''T'') (toISOString now) @ ''.csv'')
                      csv s)))"

text \<open>
  \<^verbatim>\<open>exportToGoogleSheets\<close> (lines 262 to 293): the stored result as it is, sent to
  \<^verbatim>\<open>/api/export/sheets\<close>; every failure ends in the same alert.
\<close>

record sheets_reply =
  success :: bool
  sheet_url :: string

definition sheets_failed :: "page \<Rightarrow> page" where
  "sheets_failed s = alert msg_sheets_error (console_error ''Google Sheets export error:'' s)"

definition exportToGoogleSheets :: "sheets_reply response \<Rightarrow> page \<Rightarrow> page" where
  "exportToGoogleSheets reply s =
     (case currentAnalysisData s of
        None \<Rightarrow> alert msg_no_data s
      | Some data \<Rightarrow>
          let s1 = fetch ''/api/export/sheets'' (SheetsRequest data) s
          in (case reply of
                NetworkError \<Rightarrow> sheets_failed s1
              | Response ok status js \<Rightarrow>
                  if \<not> ok then sheets_failed s1
                  else (case js of
                          None \<Rightarrow> sheets_failed s1
                        | Some result \<Rightarrow>
                            if success result
                            then (alert (msg_sheets_saved @ sheet_url result) s1)
                                   \<lparr>opened := opened s1 @ [sheet_url result]\<rparr>
                            else sheets_failed s1)))"

text \<open>A run of the page: any sequence of calls of the three functions that make charts.\<close>

datatype page_call =
    CreateEngagementChart Series
  | CreateTimingChart Series
  | DisplayResults AnalysisResult

fun page_step :: "page \<Rightarrow> page_call \<Rightarrow> page" where
  "page_step s (CreateEngagementChart d) = createEngagementChart d s"
| "page_step s (CreateTimingChart d) = createTimingChart d s"
| "page_step s (DisplayResults r) = (case displayResults r s of Inl e \<Rightarrow> s | Inr s' \<Rightarrow> s')"

definition page_run :: "page_call list \<Rightarrow> page" where
  "page_run calls = foldl page_step page_init calls"

section \<open>The dashboard page: dashboard.js\<close>

text \<open>
  The state of the dashboard: the global variables \<^verbatim>\<open>mainChart\<close>, \<^verbatim>\<open>timingChart\<close>
  (\<open>timingChart_dashboard\<close> here, the analysis page has a variable of the same name) and
  \<^verbatim>\<open>currentData\<close>, and whether the template has the two canvas elements, which the
  script tests before it draws.
\<close>

record dashboard = browser +
  mainChart :: "Chart option"
  timingChart_dashboard :: "Chart option"
  currentData :: "AnalysisResult option"
  has_mainChart_canvas :: bool
  has_timingChart_canvas :: bool

definition dashboard_init :: "AnalysisResult option \<Rightarrow> bool \<Rightarrow> bool \<Rightarrow> dashboard" where
  "dashboard_init data cm ct =
     \<lparr>created = [], destroyed = [], alerts = [], console = [], requests = [], downloads = [],
      opened = [], mainChart = None, timingChart_dashboard = None, currentData = data,
      has_mainChart_canvas = cm, has_timingChart_canvas = ct\<rparr>"

text \<open>\<^verbatim>\<open>x || []\<close> for an array that may be missing.\<close>

definition or_empty :: "'a list option \<Rightarrow> 'a list" where
  "or_empty v = (case v of Some xs \<Rightarrow> xs | None \<Rightarrow> [])"

text \<open>
  \<^verbatim>\<open>createMainChart\<close> (lines 103 to 191):
  \<^verbatim>\<open>
  const ctx = document.getElementById('mainChart');
  if (!ctx || !currentData.engagement_data) return;
  if (mainChart) { mainChart.destroy(); }
  const labels = currentData.engagement_data.labels || [];
  const data = currentData.engagement_data.values || [];
  mainChart = new Chart(ctx, { type: 'line', data: { labels: labels, datasets: [{ data: data, ... }] }, ... });
  \<close>
\<close>

definition createMainChart :: "dashboard \<Rightarrow> js_error + dashboard" where
  "createMainChart s =
     (if \<not> has_mainChart_canvas s then Inr s
      else
        (case currentData s of
           None \<Rightarrow> Inl TypeError
         | Some cd \<Rightarrow>
             (case engagement_data cd of
                None \<Rightarrow> Inr s
              | Some ed \<Rightarrow>
                  let s1 = (case mainChart s of Some c \<Rightarrow> destroy c s | None \<Rightarrow> s);
                      c = new_Chart ''mainChart'' ''line''
                            (Some (or_empty (labels ed))) (Some (or_empty (vals ed))) s1
                  in Inr ((register c s1)\<lparr>mainChart := Some c\<rparr>))))"

text \<open>
  \<^verbatim>\<open>createTimingChartDashboard\<close> (lines 193 to 244): as above on the canvas
  \<^verbatim>\<open>timingChart\<close>, but the chart is given \<^verbatim>\<open>labels.slice(0, 8)\<close> and
  \<^verbatim>\<open>data.slice(0, 8)\<close>. \<^verbatim>\<open>slice\<close> copies: the stored result is not changed.
\<close>

definition createTimingChartDashboard :: "dashboard \<Rightarrow> js_error + dashboard" where
  "createTimingChartDashboard s =
     (if \<not> has_timingChart_canvas s then Inr s
      else
        (case currentData s of
           None \<Rightarrow> Inl TypeError
         | Some cd \<Rightarrow>
             (case timing_data cd of
                None \<Rightarrow> Inr s
              | Some td \<Rightarrow>
                  let s1 = (case timingChart_dashboard s of Some c \<Rightarrow> destroy c s | None \<Rightarrow> s);
                      c = new_Chart ''timingChart'' ''doughnut''
                            (Some (take 8 (or_empty (labels td)))) (Some (take 8 (or_empty (vals td)))) s1
                  in Inr ((register c s1)\<lparr>timingChart_dashboard := Some c\<rparr>))))"

text \<open>
  \<^verbatim>\<open>exportData\<close> (lines 387 to 418):
  \<^verbatim>\<open>
  let csv = 'METRIC,VALUE\n';
  csv += `TOTAL-POSTS,${currentData.stats.total_posts || 0}\n`;
  csv += `TOTAL-LIKES,${currentData.stats.total_likes || 0}\n`;
  csv += `TOTAL-COMMENTS,${currentData.stats.total_comments || 0}\n`;
  csv += `AVG-ENGAGEMENT,${currentData.stats.avg_engagement || 0}\n`;
  if (currentData.engagement_data && currentData.engagement_data.labels) {
      csv += '\nDATE,ENGAGEMENT\n';
      for (let i = 0; i < currentData.engagement_data.labels.length; i++) {
          csv += `${currentData.engagement_data.labels[i]},${currentData.engagement_data.values[i] || 0}\n`;
      }
  }
  \<close>
  with the Japanese labels in place of the capitals.
\<close>

definition nth_opt :: "'a list \<Rightarrow> nat \<Rightarrow> 'a option" where
  "nth_opt xs i = (if i < length xs then Some (xs ! i) else None)"

function dashboard_loop ::
  "nat \<Rightarrow> string list \<Rightarrow> jsnum list option \<Rightarrow> string \<Rightarrow> js_error + string" where
  "dashboard_loop i ls vs csv =
     (if i < length ls then
        (case vs of
           None \<Rightarrow> Inl TypeError
         | Some v \<Rightarrow> dashboard_loop (Suc i) ls vs (csv @ ls ! i @ '','' @ or0 (nth_opt v i) @ NL))
      else Inr csv)"
  by pat_completeness auto
termination
  by (relation "measure (\<lambda>(i, ls, vs, csv). length ls - i)") auto

declare dashboard_loop.simps [simp del]

definition dashboard_csv_stats :: "Stats \<Rightarrow> string" where
  "dashboard_csv_stats st =
     (let csv = hdr_dashboard @ NL;
          csv = csv @ lbl_total_posts @ '','' @ or0 (total_posts st) @ NL;
          csv = csv @ lbl_total_likes @ '','' @ or0 (total_likes st) @ NL;
          csv = csv @ lbl_total_comments @ '','' @ or0 (total_comments st) @ NL;
          csv = csv @ lbl_avg_engagement @ '','' @ or0 (avg_engagement st) @ NL
      in csv)"

definition dashboard_csv_text :: "AnalysisResult \<Rightarrow> js_error + string" where
  "dashboard_csv_text data =
     (case stats data of
        None \<Rightarrow> Inl TypeError
      | Some st \<Rightarrow>
          (case engagement_data data of
             None \<Rightarrow> Inr (dashboard_csv_stats st)
           | Some ed \<Rightarrow>
               (case labels ed of
                  None \<Rightarrow> Inr (dashboard_csv_stats st)
                | Some ls \<Rightarrow>
                    dashboard_loop 0 ls (vals ed)
                      (dashboard_csv_stats st @ NL @ hdr_dashboard_engagement @ NL))))"

definition exportData :: "Date \<Rightarrow> dashboard \<Rightarrow> js_error + dashboard" where
  "exportData now s =
     (case currentData s of
        None \<Rightarrow> Inr (alert msg_no_data s)
      | Some data \<Rightarrow>
          (case dashboard_csv_text data of
             Inl e \<Rightarrow> Inl e
           | Inr csv \<Rightarrow>
               Inr (download
                      (''sns_analysis_dashboard_'' @ split_first (CHR ''T'') (toISOString now) @ ''.csv'')
                      csv s)))"

text \<open>A run of the dashboard: any sequence of calls of the two functions that make charts.\<close>

datatype dashboard_call = CreateMainChart | CreateTimingChartDashboard

fun dashboard_step :: "dashboard \<Rightarrow> dashboard_call \<Rightarrow> dashboard" where
  "dashboard_step s CreateMainChart = (case createMainChart s of Inl e \<Rightarrow> s | Inr s' \<Rightarrow> s')"
| "dashboard_step s CreateTimingChartDashboard =
     (case createTimingChartDashboard s of Inl e \<Rightarrow> s | Inr s' \<Rightarrow> s')"

definition dashboard_run ::
  "AnalysisResult option \<Rightarrow> bool \<Rightarrow> bool \<Rightarrow> dashboard_call list \<Rightarrow> dashboard" where
  "dashboard_run data cm ct calls = foldl dashboard_step (dashboard_init data cm ct) calls"


section \<open>Rows\<close>

text \<open>The text whose lines are the given rows, each ended by a newline.\<close>

definition unrows :: "string list \<Rightarrow> string" where
  "unrows rs = concat (map (\<lambda>r. r @ NL) rs)"

text \<open>Sample inputs: a clock reading and a result with every figure and both series.\<close>

definition date0 :: Date where
  "date0 = \<lparr>year = 2026, month = 11, day = 2, hours = 9, minutes = 5, seconds = 7, milliseconds = 42\<rparr>"

definition date1 :: Date where
  "date1 = \<lparr>year = 2026, month = 11, day = 3, hours = 0, minutes = 0, seconds = 1, milliseconds = 0\<rparr>"

definition stats0 :: Stats where
  "stats0 =
     \<lparr>total_posts = Some (Dec 12 0), avg_engagement = Some (Dec 45 (- 1)),
      total_impressions = Some (Dec 1500000 0), follower_count = Some (Dec 2500 0),
      total_likes = Some (Dec 7 0), total_comments = Some (Dec 3 0)\<rparr>"

definition engagement0 :: Series where
  "engagement0 = \<lparr>labels = Some [''2024-01-01'', ''2024-01-02''], vals = Some [Dec 5 0, Dec 25 (- 1)]\<rparr>"

definition timing0 :: Series where
  "timing0 =
     \<lparr>labels = Some [''18:00'', ''12:00'', ''20:00'', ''08:00'', ''21:00'', ''09:00'', ''19:00'',
                     ''07:00'', ''22:00'', ''13:00''],
      vals = Some [Dec 9 0, Dec 8 0, Dec 7 0, Dec 6 0, Dec 5 0, Dec 4 0, Dec 3 0, Dec 2 0,
                   Dec 1 0, Dec 1 0]\<rparr>"

definition form0 :: form_data where
  "form0 =
     \<lparr>platform = Some ''instagram'', username = Some ''demo'', period = Some ''30'',
      analysis_types = [''engagement'']\<rparr>"

definition result0 :: AnalysisResult where
  "result0 = \<lparr>stats = Some stats0, engagement_data = Some engagement0, timing_data = Some timing0\<rparr>"

section \<open>The producer of the result\<close>

text \<open>
  Modelled from the spec: the Metrics Aggregator (section 4.2), which runs on the server and
  is not among the source files. Only its rule for which fields of the result are populated
  is modelled, in the words of the spec: ``Only analysis types present in
  \<^verbatim>\<open>requestedTypes\<close> are computed and populated in the result; omitted types leave the
  corresponding AnalysisResult field unset''. The analysis types are those the glossary
  names (engagement, timing, hashtags); the figures computed for each field are parameters.
  The scripts read no field for the hashtags, so the result has none here.
\<close>

datatype AnalysisType = Engagement | Timing | Hashtags

definition aggregate :: "AnalysisType set \<Rightarrow> Stats \<Rightarrow> Series \<Rightarrow> Series \<Rightarrow> AnalysisResult" where
  "aggregate requestedTypes st engagementSeries timingHistogram =
     \<lparr>stats = Some st,
      engagement_data = (if Engagement \<in> requestedTypes then Some engagementSeries else None),
      timing_data = (if Timing \<in> requestedTypes then Some timingHistogram else None)\<rparr>"


section \<open>One chart per canvas\<close>

text \<open>
  The charts are numbered in the order of their construction, and only constructed charts
  are destroyed.
\<close>

definition charts_ok :: "'a browser_scheme \<Rightarrow> bool" where
  "charts_ok s \<longleftrightarrow>
     map chart_id (created s) = rev [0..<length (created s)]
     \<and> (\<forall>i \<in> set (destroyed s). i < length (created s))"

text \<open>
  A variable \<open>g\<close> owns the canvas \<open>cv\<close>: it holds the chart made last for the canvas,
  and that chart is the only one alive on it.
\<close>

definition owns :: "string \<Rightarrow> Chart option \<Rightarrow> 'a browser_scheme \<Rightarrow> bool" where
  "owns cv g s \<longleftrightarrow>
     latest_on cv s = g \<and> live_on cv s = (case g of None \<Rightarrow> [] | Some c \<Rightarrow> [c])"

definition page_inv :: "page \<Rightarrow> bool" where
  "page_inv s \<longleftrightarrow>
     charts_ok s
     \<and> owns ''engagementChart'' (engagementChart s) s
     \<and> owns ''timingChart'' (timingChart s) s
     \<and> (\<forall>c \<in> set (created s). canvas c = ''engagementChart'' \<or> canvas c = ''timingChart'')"

definition dashboard_inv :: "dashboard \<Rightarrow> bool" where
  "dashboard_inv s \<longleftrightarrow>
     charts_ok s
     \<and> owns ''mainChart'' (mainChart s) s
     \<and> owns ''timingChart'' (timingChart_dashboard s) s
     \<and> (\<forall>c \<in> set (created s). canvas c = ''mainChart'' \<or> canvas c = ''timingChart'')"

text \<open>
  What each of the four chart functions does to the charts: the chart the variable holds is
  destroyed, then a new one is constructed on the canvas.
\<close>

definition replaced :: "string \<Rightarrow> Chart option \<Rightarrow> string \<Rightarrow> string list option \<Rightarrow> jsnum list option
    \<Rightarrow> 'a browser_scheme \<Rightarrow> 'a browser_scheme" where
  "replaced cv g ty ls ds s =
     (let s1 = (case g of Some c \<Rightarrow> destroy c s | None \<Rightarrow> s)
      in register (new_Chart cv ty ls ds s1) s1)"


section \<open>Properties of the model\<close>

subsection \<open>Rounding to binary64\<close>

lemma ilog2_nonneg: "1 \<le> x \<Longrightarrow> 0 \<le> ilog2 x"
proof -
  assume x: "1 \<le> x"
  then have "1 \<le> \<lfloor>x\<rfloor>" by (simp add: le_floor_iff)
  then have "1 \<le> bitlen \<lfloor>x\<rfloor>" by (simp add: bitlen_alt_def)
  with x show ?thesis by (simp add: ilog2_def)
qed

lemma ilog2_bounds:
  assumes "1 \<le> x"
  shows "2 ^ nat (ilog2 x) \<le> x" and "x < 2 ^ (nat (ilog2 x) + 1)"
proof -
  let ?a = "\<lfloor>x\<rfloor>"
  have a: "0 < ?a" using assms by (simp add: floor_less_iff less_le_trans le_floor_iff)
  have il: "ilog2 x = bitlen ?a - 1" using assms by (simp add: ilog2_def)
  from bitlen_bounds [OF a] have lo: "2 ^ nat (bitlen ?a - 1) \<le> ?a" and hi: "?a < 2 ^ nat (bitlen ?a)"
    by simp_all
  have "(of_int ((2::int) ^ nat (ilog2 x))::rat) \<le> of_int ?a"
    using lo il by (simp only: of_int_le_iff)
  also have "\<dots> \<le> x" by simp
  finally show "2 ^ nat (ilog2 x) \<le> x" by simp
  have nn: "0 \<le> ilog2 x" using assms by (rule ilog2_nonneg)
  have "nat (bitlen ?a) = nat (ilog2 x) + 1" using il nn by simp
  with hi have "?a + 1 \<le> 2 ^ (nat (ilog2 x) + 1)" by simp
  then have "(of_int (?a + 1)::rat) \<le> of_int (2 ^ (nat (ilog2 x) + 1))"
    by (simp only: of_int_le_iff)
  moreover have "x < of_int (?a + 1)" using floor_correct [of x] by simp
  ultimately show "x < 2 ^ (nat (ilog2 x) + 1)" by simp
qed

lemma ilog2_le:
  assumes "1 \<le> x" and "x < 2 ^ n"
  shows "ilog2 x < int n"
proof (rule ccontr)
  assume "\<not> ilog2 x < int n"
  then have "n \<le> nat (ilog2 x)" by simp
  then have "(2::rat) ^ n \<le> 2 ^ nat (ilog2 x)" by (simp add: power_increasing)
  also have "\<dots> \<le> x" using assms(1) by (rule ilog2_bounds)
  finally show False using assms(2) by simp
qed


lemma round_half_even_of_int [simp]: "round_half_even (of_int z) = z"
  by (simp add: round_half_even_def)




lemma pow2_neq0 [simp]: "pow2 e \<noteq> 0"
  by (simp add: pow2_def)

lemma pow2_nonpos: "e \<le> 0 \<Longrightarrow> pow2 e = 1 / 2 ^ nat (- e)"
  by (cases "e = 0") (simp_all add: pow2_def)


lemma ilog2_bounds_small:
  assumes "0 < x" and "x < 1"
  shows "pow2 (ilog2 x) \<le> x" and "x < pow2 (ilog2 x + 1)"
proof -
  let ?c = "\<lceil>1 / x\<rceil>"
  let ?L = "bitlen (?c - 1)"
  have z: "1 < 1 / x" using assms by simp
  have c: "0 < ?c - 1" using z by (simp add: less_ceiling_iff)
  have il: "ilog2 x = - ?L" using assms by (simp add: ilog2_def)
  from bitlen_bounds [OF c] have lo: "2 ^ nat (?L - 1) \<le> ?c - 1" and hi: "?c - 1 < 2 ^ nat ?L"
    by simp_all
  have Lpos: "0 < ?L"
  proof (rule ccontr)
    assume "\<not> 0 < ?L"
    then have "nat ?L = 0" by simp
    with hi c show False by simp
  qed
  have "1 / x \<le> of_int ?c" by simp
  also have "(of_int ?c::rat) \<le> of_int (2 ^ nat ?L)" using hi by (simp only: of_int_le_iff)
  finally have up: "1 / x \<le> 2 ^ nat ?L" by simp
  have "1 / 2 ^ nat ?L \<le> x"
    using up assms(1) by (simp add: field_simps)
  moreover have "pow2 (ilog2 x) = 1 / 2 ^ nat ?L"
    using il Lpos by (simp add: pow2_nonpos)
  ultimately show "pow2 (ilog2 x) \<le> x" by simp
  have "(of_int (2 ^ nat (?L - 1))::rat) \<le> of_int (?c - 1)" using lo by (simp only: of_int_le_iff)
  also have "(of_int (?c - 1)::rat) < 1 / x" using ceiling_correct [of "1 / x"] by simp
  finally have dn: "2 ^ nat (?L - 1) < 1 / x" by simp
  have "x < 1 / 2 ^ nat (?L - 1)"
    using dn assms(1) by (simp add: field_simps)
  moreover have "pow2 (ilog2 x + 1) = 1 / 2 ^ nat (?L - 1)"
    using il Lpos pow2_nonpos [of "ilog2 x + 1"] by simp
  ultimately show "x < pow2 (ilog2 x + 1)" by simp
qed

lemma rd_pos_eq: "0 < x \<Longrightarrow> rd x = rd_pos x"
  by (simp add: rd_def)

lemma ulp_normal: "1 \<le> x \<Longrightarrow> max (ilog2 x - 52) (- 1074) = ilog2 x - 52"
  using ilog2_nonneg [of x] by simp


lemma rd_of_int:
  assumes "0 \<le> n" and "n < 2 ^ 53"
  shows "rd (of_int n) = of_int n"
proof (cases "n = 0")
  case True
  then show ?thesis by (simp add: rd_def)
next
  case False
  with assms have n: "1 \<le> n" by simp
  let ?x = "of_int n :: rat"
  have x: "1 \<le> ?x" using n by simp
  have "?x < of_int (2 ^ 53)" using assms(2) by (simp only: of_int_less_iff)
  then have "?x < 2 ^ 53" by simp
  with x have "ilog2 ?x < int 53" by (rule ilog2_le)
  then have e: "ilog2 ?x - 52 \<le> 0" by simp
  let ?j = "nat (- (ilog2 ?x - 52))"
  have u: "pow2 (ilog2 ?x - 52) = 1 / 2 ^ ?j" using e by (rule pow2_nonpos)
  have "?x / (1 / 2 ^ ?j) = of_int (n * 2 ^ ?j)" by simp
  then have "round_half_even (?x / (1 / 2 ^ ?j)) = n * 2 ^ ?j"
    by (simp only: round_half_even_of_int)
  then have "rd_pos ?x = of_int (n * 2 ^ ?j) * (1 / 2 ^ ?j)"
    using x u by (simp add: rd_pos_def ulp_normal Let_def)
  also have "\<dots> = ?x" by simp
  finally show ?thesis using x by (simp add: rd_pos_eq)
qed

lemma dbl_count: "0 \<le> n \<Longrightarrow> n < 2 ^ 53 \<Longrightarrow> dbl (Dec n 0) = of_int n"
  by (simp add: dbl_def pow10_def rd_of_int)



subsection \<open>Decimal digits\<close>

lemma show_dec_digit: "n < 10 \<Longrightarrow> show_dec n = [digit_char n]"
  by (simp add: show_dec.simps)

lemma show_dec_step: "10 \<le> n \<Longrightarrow> show_dec n = show_dec (n div 10) @ [digit_char (n mod 10)]"
  by (subst show_dec.simps) simp

lemma show_dec_0 [simp]: "show_dec 0 = ''0''"
  by (simp add: show_dec_digit digit_char_def)

lemma show_dec_nonempty [simp]: "show_dec n \<noteq> []"
  by (subst show_dec.simps) simp

lemma digit_char_digit:
  assumes "0 \<le> d" and "d < 10"
  shows "digit_char d \<in> set ''0123456789''"
proof -
  from assms have "d = 0 \<or> d = 1 \<or> d = 2 \<or> d = 3 \<or> d = 4 \<or> d = 5 \<or> d = 6 \<or> d = 7 \<or> d = 8 \<or> d = 9"
    by arith
  then show ?thesis by (auto simp: digit_char_def)
qed

lemma digit_char_0 [simp]: "digit_char 0 = CHR ''0''"
  by (simp add: digit_char_def)

lemma show_dec_digits: "0 \<le> n \<Longrightarrow> set (show_dec n) \<subseteq> set ''0123456789''"
proof (induction n rule: show_dec.induct)
  case (1 n)
  show ?case
  proof (cases "n < 10")
    case True
    with "1.prems" digit_char_digit [of n] show ?thesis by (simp add: show_dec_digit)
  next
    case False
    then have "0 \<le> n div 10" by simp
    with 1 False have "set (show_dec (n div 10)) \<subseteq> set ''0123456789''" by simp
    moreover have "digit_char (n mod 10) \<in> set ''0123456789''"
      by (rule digit_char_digit) simp_all
    ultimately show ?thesis using False by (simp add: show_dec_step)
  qed
qed

lemma length_show_dec_le: "0 < k \<Longrightarrow> n < 10 ^ k \<Longrightarrow> length (show_dec n) \<le> k"
proof (induction n arbitrary: k rule: show_dec.induct)
  case (1 n)
  show ?case
  proof (cases "n < 10")
    case True
    with "1.prems" show ?thesis by (simp add: show_dec_digit)
  next
    case False
    with "1.prems" have k: "1 < k" by (cases "k = 1") auto
    then obtain k' where k': "k = Suc k'" "0 < k'" by (cases k) auto
    with "1.prems" have "n div 10 < 10 ^ k'" by (simp add: div_less_iff_less_mult mult.commute)
    with 1 False k' have "length (show_dec (n div 10)) \<le> k'" by simp
    with False k' show ?thesis by (simp add: show_dec_step)
  qed
qed

lemma show_dec_shift: "0 < s \<Longrightarrow> show_dec (s * 10 ^ j) = show_dec s @ replicate j (CHR ''0'')"
proof (induction j)
  case 0
  then show ?case by simp
next
  case (Suc j)
  have "0 < s * 10 ^ j" using Suc.prems by simp
  then have "10 \<le> s * 10 ^ j * 10" by simp
  then have "10 \<le> s * 10 ^ Suc j" by (simp add: mult_ac)
  then have "show_dec (s * 10 ^ Suc j) = show_dec (s * 10 ^ Suc j div 10) @ [digit_char (s * 10 ^ Suc j mod 10)]"
    by (rule show_dec_step)
  also have "s * 10 ^ Suc j div 10 = s * 10 ^ j" by simp
  also have "s * 10 ^ Suc j mod 10 = 0" by simp
  finally show ?case using Suc by (simp add: digit_char_def replicate_append_same)
qed

lemma strip_zeros_spec:
  "0 < m \<Longrightarrow> strip_zeros m e = (s, e') \<Longrightarrow> 0 < s \<and> e \<le> e' \<and> m = s * 10 ^ nat (e' - e)"
proof (induction m e rule: strip_zeros.induct)
  case (1 m e)
  show ?case
  proof (cases "m mod 10 = 0")
    case True
    with "1.prems" have r: "strip_zeros (m div 10) (e + 1) = (s, e')"
      by (subst (asm) strip_zeros.simps) simp
    have "0 < m div 10" using True "1.prems"(1) by (simp add: pos_imp_zdiv_pos_iff) arith
    with 1 True r have ih: "0 < s \<and> e + 1 \<le> e' \<and> m div 10 = s * 10 ^ nat (e' - (e + 1))" by simp
    then have "e + 1 \<le> e'" by simp
    then have "nat (e' - e) = Suc (nat (e' - (e + 1)))" by linarith
    moreover have "m = m div 10 * 10" using True by (simp add: mod_eq_0_iff_dvd)
    ultimately show ?thesis using ih by simp
  next
    case False
    with "1.prems" show ?thesis by (subst (asm) strip_zeros.simps) auto
  qed
qed

subsection \<open>Printing counts and tenths\<close>

lemma ToString_count:
  assumes "0 \<le> n" and "n < 10 ^ 21"
  shows "ToString (Dec n 0) = show_dec n"
proof (cases "n = 0")
  case True
  then show ?thesis by (simp add: ToString_def)
next
  case False
  with assms have n: "0 < n" by simp
  obtain s e where se: "strip_zeros n 0 = (s, e)" by (cases "strip_zeros n 0")
  from strip_zeros_spec [OF n se] have s: "0 < s" and e: "0 \<le> e" and eq: "n = s * 10 ^ nat e"
    by simp_all
  have sh: "show_dec n = show_dec s @ replicate (nat e) (CHR ''0'')"
    using s by (subst eq) (rule show_dec_shift)
  have "length (show_dec n) \<le> 21" using assms(2) by (intro length_show_dec_le) simp_all
  then have len: "int (length (show_dec s)) + e \<le> 21" using sh e by simp
  show ?thesis
    using n se e len sh by (simp add: ToString_def ToString_pos_def Let_def)
qed



lemma truthy_count: "0 \<le> n \<Longrightarrow> n < 2 ^ 53 \<Longrightarrow> truthy (Dec n 0) \<longleftrightarrow> n \<noteq> 0"
  by (simp add: truthy_def dbl_count)

lemma or0_count:
  assumes "0 \<le> n" and "n < 2 ^ 53"
  shows "or0 (Some (Dec n 0)) = show_dec n"
proof -
  have "n < 10 ^ 21" using assms(2) by simp
  with assms(1) have "ToString (Dec n 0) = show_dec n" by (rule ToString_count)
  then show ?thesis using assms by (auto simp: or0_def truthy_count)
qed

subsection \<open>Quotients in range\<close>









subsection \<open>One decimal digit of a quotient\<close>






subsection \<open>Rows of the CSV text\<close>

lemmas effect_defs = alert_def console_error_def fetch_def download_def

lemma unrows_Nil [simp]: "unrows [] = []"
  by (simp add: unrows_def)

lemma unrows_Cons [simp]: "unrows (r # rs) = r @ NL @ unrows rs"
  by (simp add: unrows_def)

lemma unrows_append [simp]: "unrows (rs @ ts) = unrows rs @ unrows ts"
  by (simp add: unrows_def)

lemma csv_stats_rows:
  "csv_stats st =
     unrows [hdr_csv,
             lbl_total_posts @ '','' @ or0 (total_posts st),
             lbl_avg_engagement_rate @ '','' @ or0 (avg_engagement st) @ ''%'',
             lbl_total_impressions @ '','' @ or0 (total_impressions st),
             lbl_follower_count @ '','' @ or0 (follower_count st)]"
  by (simp add: csv_stats_def Let_def)

lemma dashboard_csv_stats_rows:
  "dashboard_csv_stats st =
     unrows [hdr_dashboard,
             lbl_total_posts @ '','' @ or0 (total_posts st),
             lbl_total_likes @ '','' @ or0 (total_likes st),
             lbl_total_comments @ '','' @ or0 (total_comments st),
             lbl_avg_engagement @ '','' @ or0 (avg_engagement st)]"
  by (simp add: dashboard_csv_stats_def Let_def)

text \<open>The loop of \<^verbatim>\<open>exportToCSV\<close> appends one row per label, in the order of the array.\<close>

lemma csv_loop_rows:
  "i \<le> length ls \<Longrightarrow>
   csv_loop i ls (Some vs) csv =
     Inr (csv @ unrows (map (\<lambda>k. ls ! k @ '','' @ (if k < length vs then ToString (vs ! k) else ''undefined''))
                          [i..<length ls]))"
proof (induction i ls "Some vs" csv rule: csv_loop.induct)
  case (1 i ls csv)
  show ?case
  proof (cases "i < length ls")
    case True
    then have "Suc i \<le> length ls" by simp
    with "1.hyps" True show ?thesis
      by (subst csv_loop.simps) (simp add: upt_conv_Cons)
  next
    case False
    with "1.prems" show ?thesis by (subst csv_loop.simps) simp
  qed
qed

lemma csv_loop_no_values:
  "csv_loop 0 ls None csv = (if ls = [] then Inr csv else Inl TypeError)"
  by (subst csv_loop.simps) simp

lemma dashboard_loop_rows:
  "i \<le> length ls \<Longrightarrow>
   dashboard_loop i ls (Some vs) csv =
     Inr (csv @ unrows (map (\<lambda>k. ls ! k @ '','' @ or0 (nth_opt vs k)) [i..<length ls]))"
proof (induction i ls "Some vs" csv rule: dashboard_loop.induct)
  case (1 i ls csv)
  show ?case
  proof (cases "i < length ls")
    case True
    then have "Suc i \<le> length ls" by simp
    with "1.hyps" True show ?thesis
      by (subst dashboard_loop.simps) (simp add: upt_conv_Cons)
  next
    case False
    with "1.prems" show ?thesis by (subst dashboard_loop.simps) simp
  qed
qed

text \<open>The CSV text does not read the timing histogram.\<close>

lemma csv_text_ignores_timing: "csv_text (r\<lparr>timing_data := t\<rparr>) = csv_text r"
  by (simp add: csv_text_def split: option.splits)

lemma dashboard_csv_text_ignores_timing: "dashboard_csv_text (r\<lparr>timing_data := t\<rparr>) = dashboard_csv_text r"
  by (simp add: dashboard_csv_text_def split: option.splits)

subsection \<open>The date in the file name\<close>

lemma pad_digits: "set (pad w n) \<subseteq> set ''0123456789''"
  using show_dec_digits [of "int n"] by (auto simp: pad_def Let_def)

lemma pad_no_T: "CHR ''T'' \<notin> set (pad w n)"
  using pad_digits [of w n] by auto

lemma takeWhile_until:
  "x \<notin> set xs \<Longrightarrow> takeWhile (\<lambda>c. c \<noteq> x) (xs @ x # ys) = xs"
  by (induction xs) auto

lemma iso_date:
  "split_first (CHR ''T'') (toISOString d) =
     (if year d \<le> 9999 then pad 4 (year d) else ''+'' @ pad 6 (year d))
     @ ''-'' @ pad 2 (month d) @ ''-'' @ pad 2 (day d)"
proof -
  let ?date = "(if year d \<le> 9999 then pad 4 (year d) else ''+'' @ pad 6 (year d))
     @ ''-'' @ pad 2 (month d) @ ''-'' @ pad 2 (day d)"
  have notT: "CHR ''T'' \<notin> set ?date" by (simp add: pad_no_T)
  have "toISOString d = ?date @ CHR ''T'' #
      (pad 2 (hours d) @ '':'' @ pad 2 (minutes d) @ '':'' @ pad 2 (seconds d)
       @ ''.'' @ pad 3 (milliseconds d) @ ''Z'')"
    by (simp add: toISOString_def)
  then show ?thesis
    unfolding split_first_def using takeWhile_until [OF notT] by simp
qed

subsection \<open>Replacing the chart of a canvas\<close>

lemma created_replaced:
  "created (replaced cv g ty ls ds s) =
     \<lparr>chart_id = length (created s), canvas = cv, chart_type = ty, chart_labels = ls, chart_data = ds\<rparr>
     # created s"
  by (simp add: replaced_def Let_def register_def destroy_def new_Chart_def split: option.splits)

lemma destroyed_replaced:
  "destroyed (replaced cv g ty ls ds s) =
     (case g of Some c \<Rightarrow> chart_id c # destroyed s | None \<Rightarrow> destroyed s)"
  by (simp add: replaced_def Let_def register_def destroy_def split: option.splits)

lemma owns_member: "owns cv (Some c) s \<Longrightarrow> c \<in> set (created s) \<and> canvas c = cv"
proof -
  assume "owns cv (Some c) s"
  then have "live_on cv s = [c]" by (simp add: owns_def)
  then have "c \<in> set (live_on cv s)" by simp
  then show ?thesis by (auto simp: live_on_def)
qed

lemma charts_ok_id_less: "charts_ok s \<Longrightarrow> c \<in> set (created s) \<Longrightarrow> chart_id c < length (created s)"
proof -
  assume ok: "charts_ok s" and c: "c \<in> set (created s)"
  then have "chart_id c \<in> set (map chart_id (created s))" by simp
  also have "map chart_id (created s) = rev [0..<length (created s)]" using ok by (simp add: charts_ok_def)
  finally show ?thesis by simp
qed

lemma charts_ok_id_inj:
  assumes "charts_ok s" and "c \<in> set (created s)" and "c' \<in> set (created s)"
    and "chart_id c = chart_id c'"
  shows "c = c'"
proof -
  have "distinct (map chart_id (created s))" using assms(1) by (simp add: charts_ok_def)
  then have "inj_on chart_id (set (created s))" by (simp add: distinct_map)
  with assms(2-4) show ?thesis by (auto dest: inj_onD)
qed

lemma charts_ok_replaced:
  assumes "charts_ok s" and "owns cv g s"
  shows "charts_ok (replaced cv g ty ls ds s)"
proof -
  have "\<And>c. g = Some c \<Longrightarrow> chart_id c < length (created s)"
    using assms owns_member charts_ok_id_less by blast
  with assms(1) show ?thesis
    by (auto simp: charts_ok_def created_replaced destroyed_replaced less_Suc_eq split: option.splits)
qed

lemma owns_replaced_same:
  assumes "charts_ok s" and "owns cv g s"
  shows "owns cv
    (Some \<lparr>chart_id = length (created s), canvas = cv, chart_type = ty, chart_labels = ls, chart_data = ds\<rparr>)
    (replaced cv g ty ls ds s)"
proof -
  let ?c = "\<lparr>chart_id = length (created s), canvas = cv, chart_type = ty, chart_labels = ls, chart_data = ds\<rparr>"
  have fresh: "length (created s) \<notin> set (destroyed s)"
    using assms(1) by (auto simp: charts_ok_def)
  have old: "\<And>c. g = Some c \<Longrightarrow> chart_id c \<noteq> length (created s)"
    using assms owns_member charts_ok_id_less by fastforce
  have live: "live_on cv s = (case g of None \<Rightarrow> [] | Some c \<Rightarrow> [c])"
    using assms(2) by (simp add: owns_def)
  have rest: "filter (\<lambda>c. canvas c = cv \<and> chart_id c \<notin> set (destroyed (replaced cv g ty ls ds s))) (created s) = []"
  proof (cases g)
    case None
    with live show ?thesis by (simp add: destroyed_replaced live_on_def)
  next
    case (Some c)
    have "filter (\<lambda>x. canvas x = cv \<and> chart_id x \<notin> set (destroyed (replaced cv g ty ls ds s))) (created s)
        = filter (\<lambda>x. chart_id x \<noteq> chart_id c) (live_on cv s)"
      using Some by (auto simp: destroyed_replaced live_on_def intro: filter_cong)
    also have "\<dots> = []" using live Some by simp
    finally show ?thesis .
  qed
  have "live_on cv (replaced cv g ty ls ds s) = [?c]"
    unfolding live_on_def created_replaced using rest fresh old
    by (auto simp: destroyed_replaced split: option.splits)
  moreover have "latest_on cv (replaced cv g ty ls ds s) = Some ?c"
    by (simp add: latest_on_def created_replaced)
  ultimately show ?thesis by (simp add: owns_def)
qed

lemma owns_replaced_other:
  assumes "charts_ok s" and "owns cv g s" and "owns cv' g' s" and "cv' \<noteq> cv"
  shows "owns cv' g' (replaced cv g ty ls ds s)"
proof -
  have latest: "latest_on cv' (replaced cv g ty ls ds s) = latest_on cv' s"
    using assms(4) by (simp add: latest_on_def created_replaced)
  have live: "live_on cv' (replaced cv g ty ls ds s) = live_on cv' s"
  proof (cases g)
    case None
    with assms(4) show ?thesis by (simp add: live_on_def created_replaced destroyed_replaced)
  next
    case (Some c)
    with assms(2) have c: "c \<in> set (created s)" "canvas c = cv" using owns_member by blast+
    have "\<And>x. x \<in> set (created s) \<Longrightarrow> canvas x = cv' \<Longrightarrow> chart_id x \<noteq> chart_id c"
      using charts_ok_id_inj [OF assms(1) _ c(1)] c(2) assms(4) by blast
    then have "filter (\<lambda>x. canvas x = cv' \<and> chart_id x \<notin> set (chart_id c # destroyed s)) (created s)
        = filter (\<lambda>x. canvas x = cv' \<and> chart_id x \<notin> set (destroyed s)) (created s)"
      by (intro filter_cong) auto
    with Some assms(4) show ?thesis by (simp add: live_on_def created_replaced destroyed_replaced)
  qed
  from assms(3) latest live show ?thesis by (simp add: owns_def)
qed

lemma owns_at_most_one: "owns cv g s \<Longrightarrow> length (live_on cv s) \<le> 1"
  by (auto simp: owns_def split: option.splits)

lemma no_chart_no_live: "\<forall>c \<in> set (created s). canvas c \<noteq> cv \<Longrightarrow> live_on cv s = []"
  by (auto simp: live_on_def filter_empty_conv)

subsection \<open>The invariant of the two pages\<close>

lemma charts_ok_page_update [simp]:
  "charts_ok (s\<lparr>engagementChart := g\<rparr>) = charts_ok s"
  "charts_ok (s\<lparr>timingChart := g\<rparr>) = charts_ok s"
  "charts_ok (s\<lparr>currentAnalysisData := r\<rparr>) = charts_ok s"
  "charts_ok (s\<lparr>totalPosts := t\<rparr>) = charts_ok s"
  "charts_ok (s\<lparr>avgEngagement := t\<rparr>) = charts_ok s"
  "charts_ok (s\<lparr>totalImpressions := t\<rparr>) = charts_ok s"
  "charts_ok (s\<lparr>followerCount := t\<rparr>) = charts_ok s"
  "charts_ok (s\<lparr>resultsSection_display := t\<rparr>) = charts_ok s"
  by (simp_all add: charts_ok_def)

lemma owns_page_update [simp]:
  "owns cv x (s\<lparr>engagementChart := g\<rparr>) = owns cv x s"
  "owns cv x (s\<lparr>timingChart := g\<rparr>) = owns cv x s"
  "owns cv x (s\<lparr>currentAnalysisData := r\<rparr>) = owns cv x s"
  "owns cv x (s\<lparr>totalPosts := t\<rparr>) = owns cv x s"
  "owns cv x (s\<lparr>avgEngagement := t\<rparr>) = owns cv x s"
  "owns cv x (s\<lparr>totalImpressions := t\<rparr>) = owns cv x s"
  "owns cv x (s\<lparr>followerCount := t\<rparr>) = owns cv x s"
  "owns cv x (s\<lparr>resultsSection_display := t\<rparr>) = owns cv x s"
  by (simp_all add: owns_def live_on_def latest_on_def)

lemma charts_ok_dashboard_update [simp]:
  "charts_ok (d\<lparr>mainChart := g\<rparr>) = charts_ok d"
  "charts_ok (d\<lparr>timingChart_dashboard := g\<rparr>) = charts_ok d"
  by (simp_all add: charts_ok_def)

lemma owns_dashboard_update [simp]:
  "owns cv x (d\<lparr>mainChart := g\<rparr>) = owns cv x d"
  "owns cv x (d\<lparr>timingChart_dashboard := g\<rparr>) = owns cv x d"
  by (simp_all add: owns_def live_on_def latest_on_def)

lemma replaced_variables [simp]:
  "engagementChart (replaced cv g ty ls ds s) = engagementChart s"
  "timingChart (replaced cv g ty ls ds s) = timingChart s"
  "mainChart (replaced cv g ty ls ds d) = mainChart d"
  "timingChart_dashboard (replaced cv g ty ls ds d) = timingChart_dashboard d"
  by (simp_all add: replaced_def Let_def register_def destroy_def split: option.splits)

lemma createEngagementChart_replaced:
  "createEngagementChart d s =
     (replaced ''engagementChart'' (engagementChart s) ''line'' (labels d) (vals d) s)
       \<lparr>engagementChart :=
          Some \<lparr>chart_id = length (created s), canvas = ''engagementChart'', chart_type = ''line'',
                chart_labels = labels d, chart_data = vals d\<rparr>\<rparr>"
  by (simp add: createEngagementChart_def replaced_def Let_def new_Chart_def destroy_def
      split: option.splits)

lemma createTimingChart_replaced:
  "createTimingChart d s =
     (replaced ''timingChart'' (timingChart s) ''bar'' (labels d) (vals d) s)
       \<lparr>timingChart :=
          Some \<lparr>chart_id = length (created s), canvas = ''timingChart'', chart_type = ''bar'',
                chart_labels = labels d, chart_data = vals d\<rparr>\<rparr>"
  by (simp add: createTimingChart_def replaced_def Let_def new_Chart_def destroy_def
      split: option.splits)

lemma page_inv_createEngagementChart:
  assumes "page_inv s"
  shows "page_inv (createEngagementChart d s)"
proof -
  from assms have ok: "charts_ok s" and e: "owns ''engagementChart'' (engagementChart s) s"
    and t: "owns ''timingChart'' (timingChart s) s"
    and cv: "\<forall>c \<in> set (created s). canvas c = ''engagementChart'' \<or> canvas c = ''timingChart''"
    by (simp_all add: page_inv_def)
  have ne: "''timingChart'' \<noteq> ''engagementChart''" by simp
  show ?thesis
    unfolding page_inv_def createEngagementChart_replaced
    using charts_ok_replaced [OF ok e] owns_replaced_same [OF ok e]
      owns_replaced_other [OF ok e t ne] cv
    by (simp add: created_replaced)
qed

lemma page_inv_createTimingChart:
  assumes "page_inv s"
  shows "page_inv (createTimingChart d s)"
proof -
  from assms have ok: "charts_ok s" and e: "owns ''engagementChart'' (engagementChart s) s"
    and t: "owns ''timingChart'' (timingChart s) s"
    and cv: "\<forall>c \<in> set (created s). canvas c = ''engagementChart'' \<or> canvas c = ''timingChart''"
    by (simp_all add: page_inv_def)
  have ne: "''engagementChart'' \<noteq> ''timingChart''" by simp
  show ?thesis
    unfolding page_inv_def createTimingChart_replaced
    using charts_ok_replaced [OF ok t] owns_replaced_same [OF ok t]
      owns_replaced_other [OF ok t e ne] cv
    by (simp add: created_replaced)
qed

lemma page_inv_text_update:
  "page_inv (s\<lparr>totalPosts := a, avgEngagement := b, totalImpressions := c, followerCount := d\<rparr>) = page_inv s"
  "page_inv (s\<lparr>currentAnalysisData := r, resultsSection_display := t\<rparr>) = page_inv s"
  by (simp_all add: page_inv_def)

lemma page_inv_displayResults:
  assumes "page_inv s" and "displayResults r s = Inr s'"
  shows "page_inv s'"
  using assms
  by (auto simp: displayResults_def Let_def page_inv_text_update
      intro!: page_inv_createEngagementChart page_inv_createTimingChart
      split: option.splits)

lemma page_inv_init: "page_inv page_init"
  by (simp add: page_inv_def page_init_def charts_ok_def owns_def live_on_def latest_on_def)

lemma page_inv_step: "page_inv s \<Longrightarrow> page_inv (page_step s c)"
  by (cases c)
    (auto intro: page_inv_createEngagementChart page_inv_createTimingChart page_inv_displayResults
      split: sum.splits)

lemma page_inv_foldl: "page_inv s \<Longrightarrow> page_inv (foldl page_step s calls)"
  by (induction calls arbitrary: s) (simp_all add: page_inv_step)

lemma page_inv_run: "page_inv (page_run calls)"
  unfolding page_run_def by (rule page_inv_foldl [OF page_inv_init])

lemma createMainChart_replaced:
  assumes "createMainChart s = Inr s'"
  shows "s' = s \<or>
    (\<exists>ls ds. s' = (replaced ''mainChart'' (mainChart s) ''line'' (Some ls) (Some ds) s)
       \<lparr>mainChart :=
          Some \<lparr>chart_id = length (created s), canvas = ''mainChart'', chart_type = ''line'',
                chart_labels = Some ls, chart_data = Some ds\<rparr>\<rparr>)"
  using assms
  by (auto simp: createMainChart_def replaced_def Let_def new_Chart_def destroy_def
      split: option.splits if_splits)

lemma createTimingChartDashboard_replaced:
  assumes "createTimingChartDashboard s = Inr s'"
  shows "s' = s \<or>
    (\<exists>ls ds. s' = (replaced ''timingChart'' (timingChart_dashboard s) ''doughnut'' (Some ls) (Some ds) s)
       \<lparr>timingChart_dashboard :=
          Some \<lparr>chart_id = length (created s), canvas = ''timingChart'', chart_type = ''doughnut'',
                chart_labels = Some ls, chart_data = Some ds\<rparr>\<rparr>)"
  using assms
  by (auto simp: createTimingChartDashboard_def replaced_def Let_def new_Chart_def destroy_def
      split: option.splits if_splits)

lemma dashboard_inv_createMainChart:
  assumes "dashboard_inv s" and "createMainChart s = Inr s'"
  shows "dashboard_inv s'"
proof -
  from assms(1) have ok: "charts_ok s" and m: "owns ''mainChart'' (mainChart s) s"
    and t: "owns ''timingChart'' (timingChart_dashboard s) s"
    and cv: "\<forall>c \<in> set (created s). canvas c = ''mainChart'' \<or> canvas c = ''timingChart''"
    by (simp_all add: dashboard_inv_def)
  have ne: "''timingChart'' \<noteq> ''mainChart''" by simp
  from createMainChart_replaced [OF assms(2)] show ?thesis
  proof
    assume "s' = s"
    with assms(1) show ?thesis by simp
  next
    assume "\<exists>ls ds. s' = (replaced ''mainChart'' (mainChart s) ''line'' (Some ls) (Some ds) s)
       \<lparr>mainChart :=
          Some \<lparr>chart_id = length (created s), canvas = ''mainChart'', chart_type = ''line'',
                chart_labels = Some ls, chart_data = Some ds\<rparr>\<rparr>"
    then obtain ls ds where s': "s' = (replaced ''mainChart'' (mainChart s) ''line'' (Some ls) (Some ds) s)
       \<lparr>mainChart :=
          Some \<lparr>chart_id = length (created s), canvas = ''mainChart'', chart_type = ''line'',
                chart_labels = Some ls, chart_data = Some ds\<rparr>\<rparr>" by blast
    show ?thesis
      unfolding dashboard_inv_def s'
      using charts_ok_replaced [OF ok m] owns_replaced_same [OF ok m]
        owns_replaced_other [OF ok m t ne] cv
      by (simp add: created_replaced)
  qed
qed

lemma dashboard_inv_createTimingChartDashboard:
  assumes "dashboard_inv s" and "createTimingChartDashboard s = Inr s'"
  shows "dashboard_inv s'"
proof -
  from assms(1) have ok: "charts_ok s" and m: "owns ''mainChart'' (mainChart s) s"
    and t: "owns ''timingChart'' (timingChart_dashboard s) s"
    and cv: "\<forall>c \<in> set (created s). canvas c = ''mainChart'' \<or> canvas c = ''timingChart''"
    by (simp_all add: dashboard_inv_def)
  have ne: "''mainChart'' \<noteq> ''timingChart''" by simp
  from createTimingChartDashboard_replaced [OF assms(2)] show ?thesis
  proof
    assume "s' = s"
    with assms(1) show ?thesis by simp
  next
    assume "\<exists>ls ds. s' = (replaced ''timingChart'' (timingChart_dashboard s) ''doughnut'' (Some ls) (Some ds) s)
       \<lparr>timingChart_dashboard :=
          Some \<lparr>chart_id = length (created s), canvas = ''timingChart'', chart_type = ''doughnut'',
                chart_labels = Some ls, chart_data = Some ds\<rparr>\<rparr>"
    then obtain ls ds where s': "s' = (replaced ''timingChart'' (timingChart_dashboard s) ''doughnut'' (Some ls) (Some ds) s)
       \<lparr>timingChart_dashboard :=
          Some \<lparr>chart_id = length (created s), canvas = ''timingChart'', chart_type = ''doughnut'',
                chart_labels = Some ls, chart_data = Some ds\<rparr>\<rparr>" by blast
    show ?thesis
      unfolding dashboard_inv_def s'
      using charts_ok_replaced [OF ok t] owns_replaced_same [OF ok t]
        owns_replaced_other [OF ok t m ne] cv
      by (simp add: created_replaced)
  qed
qed

lemma dashboard_inv_init: "dashboard_inv (dashboard_init data cm ct)"
  by (simp add: dashboard_inv_def dashboard_init_def charts_ok_def owns_def live_on_def latest_on_def)

lemma dashboard_inv_step: "dashboard_inv s \<Longrightarrow> dashboard_inv (dashboard_step s c)"
  by (cases c)
    (auto intro: dashboard_inv_createMainChart dashboard_inv_createTimingChartDashboard
      split: sum.splits)

lemma dashboard_inv_foldl: "dashboard_inv s \<Longrightarrow> dashboard_inv (foldl dashboard_step s calls)"
  by (induction calls arbitrary: s) (simp_all add: dashboard_inv_step)

lemma dashboard_inv_run: "dashboard_inv (dashboard_run data cm ct calls)"
  unfolding dashboard_run_def by (rule dashboard_inv_foldl [OF dashboard_inv_init])

lemma inv_at_most_one:
  assumes "charts_ok s" and "owns a g s" and "owns b g' s"
    and "\<forall>c \<in> set (created s). canvas c = a \<or> canvas c = b"
  shows "length (live_on cv s) \<le> 1"
proof (cases "cv = a \<or> cv = b")
  case True
  with assms(2,3) show ?thesis by (auto dest: owns_at_most_one)
next
  case False
  with assms(4) have "\<forall>c \<in> set (created s). canvas c \<noteq> cv" by auto
  then show ?thesis by (simp add: no_chart_no_live)
qed

subsection \<open>The sample inputs, evaluated\<close>

lemma csv_stats_stats0:
  "csv_stats stats0 =
     unrows [hdr_csv, lbl_total_posts @ '',12'', lbl_avg_engagement_rate @ '',4.5%'',
             lbl_total_impressions @ '',1500000'', lbl_follower_count @ '',2500'']"
  by code_simp

lemma csv_text_result0:
  "csv_text result0 =
     Inr (unrows [hdr_csv, lbl_total_posts @ '',12'', lbl_avg_engagement_rate @ '',4.5%'',
                  lbl_total_impressions @ '',1500000'', lbl_follower_count @ '',2500'',
                  [], hdr_engagement, ''2024-01-01,5'', ''2024-01-02,2.5''])"
  by code_simp

lemma csv_text_result0_differs:
  "csv_text result0 \<noteq>
     Inr (unrows [hdr_csv, lbl_total_posts @ '',12'', lbl_avg_engagement_rate @ '',4.5%'',
                  lbl_total_impressions @ '',1500000'', lbl_follower_count @ '',2500'',
                  lbl_total_likes @ '',7'', lbl_total_comments @ '',3'',
                  [], ''2024-01-01,5'', ''2024-01-02,2.5''])"
  by code_simp

lemma display_result0:
  "\<not> isl (displayResults result0 page_init)"
  "totalPosts (projr (displayResults result0 page_init)) = ''12''"
  "avgEngagement (projr (displayResults result0 page_init)) = ''4.50%''"
  "totalImpressions (projr (displayResults result0 page_init)) = ''1.5M''"
  "followerCount (projr (displayResults result0 page_init)) = ''2.5K''"
  by code_simp+

lemma formatNumber_examples:
  "formatNumber (Dec 1500000 0) = ''1.5M''"
  "formatNumber (Dec 2500 0) = ''2.5K''"
  "formatNumber (Dec 999 0) = ''999''"
  "toFixed 2 (dbl (Dec 45 (- 1))) = ''4.50''"
  "ToString (Dec 45 (- 1)) = ''4.5''"
  by code_simp+

lemma page_run_example:
  "destroyed (page_run [DisplayResults result0, CreateEngagementChart engagement0]) = [0]"
  "map chart_id (live_on ''engagementChart'' (page_run [DisplayResults result0, CreateEngagementChart engagement0])) = [2]"
  by code_simp+

lemma or0_examples:
  "or0 (Some (Dec 12 0)) = ''12''"
  "or0 (Some (Dec 45 (- 1))) = ''4.5''"
  "or0 (Some (Dec 1500000 0)) = ''1500000''"
  "or0 (Some (Dec 2500 0)) = ''2500''"
  "or0 (Some (Dec 0 0)) = ''0''"
  "or0 None = ''0''"
  "or0 (Some (Dec 7 0)) = ''7''"
  "or0 (Some (Dec 3 0)) = ''3''"
  "or0 (Some (Dec 5 0)) = ''5''"
  "or0 (Some (Dec 25 (- 1))) = ''2.5''"
  by code_simp+

lemma ToString_examples:
  "ToString (Dec 5 0) = ''5''"
  "ToString (Dec 25 (- 1)) = ''2.5''"
  by code_simp+

lemma show_dec_examples:
  "show_dec 12 = ''12''"
  "show_dec 1500000 = ''1500000''"
  "show_dec 2500 = ''2500''"
  by code_simp+

lemma dbl_example: "dbl (Dec 45 (- 1)) \<noteq> 0"
  by code_simp


lemma iso_date_examples:
  "split_first (CHR ''T'') (toISOString date0) = ''2026-11-02''"
  "split_first (CHR ''T'') (toISOString date1) = ''2026-11-03''"
  by code_simp+


section \<open>The claims\<close>

subsection \<open>C1: the order of the exported rows\<close>

lemma exportToCSV_download:
  "currentAnalysisData s = Some r \<Longrightarrow> csv_text r = Inr csv \<Longrightarrow>
   exportToCSV now s =
     Inr (download (''sns_analysis_'' @ split_first (CHR ''T'') (toISOString now) @ ''.csv'') csv s)"
  by (simp add: exportToCSV_def)

lemma exportToCSV_error:
  "currentAnalysisData s = Some r \<Longrightarrow> csv_text r = Inl e \<Longrightarrow> exportToCSV now s = Inl e"
  by (simp add: exportToCSV_def)

lemma exportData_download:
  "currentData d = Some r \<Longrightarrow> dashboard_csv_text r = Inr csv \<Longrightarrow>
   exportData now d =
     Inr (download (''sns_analysis_dashboard_'' @ split_first (CHR ''T'') (toISOString now) @ ''.csv'')
           csv d)"
  by (simp add: exportData_def)

lemma exportData_error:
  "currentData d = Some r \<Longrightarrow> dashboard_csv_text r = Inl e \<Longrightarrow> exportData now d = Inl e"
  by (simp add: exportData_def)

text \<open>
  C1 as stated: the rows are the six summary statistics (total posts, average engagement
  rate, total impressions, follower count, total likes, total comments), a blank line, and
  one row per point of the engagement series, with nothing else between or after them.

  \<^verbatim>\<open>exportToCSV\<close> does not do that. For the sample result (every figure present, a series
  of two points) it writes nine rows: the header, four statistics, a blank line, a second
  header for the series, and the two points. The rows for total likes and total comments
  are not there, and a header row stands between the blank line and the series. The second
  conjunct compares with the layout stated (the header, six statistics written the
  way the code writes figures, the blank line, the two points).
\<close>

theorem exportToCSV_row_order_counterexample:
  "csv_text result0 =
     Inr (unrows [hdr_csv, lbl_total_posts @ '',12'', lbl_avg_engagement_rate @ '',4.5%'',
                  lbl_total_impressions @ '',1500000'', lbl_follower_count @ '',2500'',
                  [], hdr_engagement, ''2024-01-01,5'', ''2024-01-02,2.5''])
   \<and> csv_text result0 \<noteq>
     Inr (unrows [hdr_csv, lbl_total_posts @ '',12'', lbl_avg_engagement_rate @ '',4.5%'',
                  lbl_total_impressions @ '',1500000'', lbl_follower_count @ '',2500'',
                  lbl_total_likes @ '',7'', lbl_total_comments @ '',3'',
                  [], ''2024-01-01,5'', ''2024-01-02,2.5''])"
  using csv_text_result0 csv_text_result0_differs by simp

text \<open>
  C1 as amended: after the header row \<^verbatim>\<open>exportToCSV\<close> writes four statistics rows, in
  the order total posts, average engagement rate, total impressions, follower count. When
  the result has no engagement series the text ends there. When it has one, a blank line,
  the header row of the series and one row per label follow, in the order of the labels
  array, and nothing else. The dashboard's \<^verbatim>\<open>exportData\<close> has the same shape with its
  own four statistics: total posts, total likes, total comments, average engagement.
  (A result without \<^verbatim>\<open>stats\<close>, or with a series whose arrays are missing, raises
  \<^verbatim>\<open>TypeError\<close> in \<^verbatim>\<open>exportToCSV\<close> and nothing is written.)
\<close>

theorem exportToCSV_row_order:
  assumes "currentAnalysisData s = Some r" and "currentData d = Some r" and "stats r = Some st"
  shows "(engagement_data r = None \<longrightarrow>
            exportToCSV now s =
              Inr (download (''sns_analysis_'' @ split_first (CHR ''T'') (toISOString now) @ ''.csv'')
                    (unrows [hdr_csv,
                             lbl_total_posts @ '','' @ or0 (total_posts st),
                             lbl_avg_engagement_rate @ '','' @ or0 (avg_engagement st) @ ''%'',
                             lbl_total_impressions @ '','' @ or0 (total_impressions st),
                             lbl_follower_count @ '','' @ or0 (follower_count st)]) s)
            \<and> exportData now d =
              Inr (download (''sns_analysis_dashboard_'' @ split_first (CHR ''T'') (toISOString now) @ ''.csv'')
                    (unrows [hdr_dashboard,
                             lbl_total_posts @ '','' @ or0 (total_posts st),
                             lbl_total_likes @ '','' @ or0 (total_likes st),
                             lbl_total_comments @ '','' @ or0 (total_comments st),
                             lbl_avg_engagement @ '','' @ or0 (avg_engagement st)]) d))
       \<and> (\<forall>ed ls vs. engagement_data r = Some ed \<and> labels ed = Some ls \<and> vals ed = Some vs \<longrightarrow>
            exportToCSV now s =
              Inr (download (''sns_analysis_'' @ split_first (CHR ''T'') (toISOString now) @ ''.csv'')
                    (unrows ([hdr_csv,
                              lbl_total_posts @ '','' @ or0 (total_posts st),
                              lbl_avg_engagement_rate @ '','' @ or0 (avg_engagement st) @ ''%'',
                              lbl_total_impressions @ '','' @ or0 (total_impressions st),
                              lbl_follower_count @ '','' @ or0 (follower_count st),
                              [], hdr_engagement]
                             @ map (\<lambda>i. ls ! i @ '','' @
                                      (if i < length vs then ToString (vs ! i) else ''undefined''))
                                 [0..<length ls])) s)
            \<and> exportData now d =
              Inr (download (''sns_analysis_dashboard_'' @ split_first (CHR ''T'') (toISOString now) @ ''.csv'')
                    (unrows ([hdr_dashboard,
                              lbl_total_posts @ '','' @ or0 (total_posts st),
                              lbl_total_likes @ '','' @ or0 (total_likes st),
                              lbl_total_comments @ '','' @ or0 (total_comments st),
                              lbl_avg_engagement @ '','' @ or0 (avg_engagement st),
                              [], hdr_dashboard_engagement]
                             @ map (\<lambda>i. ls ! i @ '','' @ or0 (nth_opt vs i)) [0..<length ls])) d))"
proof (intro conjI impI allI)
  assume none: "engagement_data r = None"
  with assms(3) have "csv_text r = Inr (csv_stats st)" by (simp add: csv_text_def)
  with assms(1) show "exportToCSV now s =
      Inr (download (''sns_analysis_'' @ split_first (CHR ''T'') (toISOString now) @ ''.csv'')
            (unrows [hdr_csv,
                     lbl_total_posts @ '','' @ or0 (total_posts st),
                     lbl_avg_engagement_rate @ '','' @ or0 (avg_engagement st) @ ''%'',
                     lbl_total_impressions @ '','' @ or0 (total_impressions st),
                     lbl_follower_count @ '','' @ or0 (follower_count st)]) s)"
    by (simp add: exportToCSV_download csv_stats_rows)
  from none assms(3) have "dashboard_csv_text r = Inr (dashboard_csv_stats st)"
    by (simp add: dashboard_csv_text_def)
  with assms(2) show "exportData now d =
      Inr (download (''sns_analysis_dashboard_'' @ split_first (CHR ''T'') (toISOString now) @ ''.csv'')
            (unrows [hdr_dashboard,
                     lbl_total_posts @ '','' @ or0 (total_posts st),
                     lbl_total_likes @ '','' @ or0 (total_likes st),
                     lbl_total_comments @ '','' @ or0 (total_comments st),
                     lbl_avg_engagement @ '','' @ or0 (avg_engagement st)]) d)"
    by (simp add: exportData_download dashboard_csv_stats_rows)
next
  fix ed ls vs
  assume some: "engagement_data r = Some ed \<and> labels ed = Some ls \<and> vals ed = Some vs"
  with assms(3) have "csv_text r =
      Inr ((csv_stats st @ NL @ hdr_engagement @ NL)
           @ unrows (map (\<lambda>i. ls ! i @ '','' @
                            (if i < length vs then ToString (vs ! i) else ''undefined''))
                       [0..<length ls]))"
    by (simp add: csv_text_def csv_loop_rows)
  with assms(1) show "exportToCSV now s =
      Inr (download (''sns_analysis_'' @ split_first (CHR ''T'') (toISOString now) @ ''.csv'')
            (unrows ([hdr_csv,
                      lbl_total_posts @ '','' @ or0 (total_posts st),
                      lbl_avg_engagement_rate @ '','' @ or0 (avg_engagement st) @ ''%'',
                      lbl_total_impressions @ '','' @ or0 (total_impressions st),
                      lbl_follower_count @ '','' @ or0 (follower_count st),
                      [], hdr_engagement]
                     @ map (\<lambda>i. ls ! i @ '','' @
                              (if i < length vs then ToString (vs ! i) else ''undefined''))
                         [0..<length ls])) s)"
    by (simp add: exportToCSV_download csv_stats_rows)
  from some assms(3) have "dashboard_csv_text r =
      Inr ((dashboard_csv_stats st @ NL @ hdr_dashboard_engagement @ NL)
           @ unrows (map (\<lambda>i. ls ! i @ '','' @ or0 (nth_opt vs i)) [0..<length ls]))"
    by (simp add: dashboard_csv_text_def dashboard_loop_rows)
  with assms(2) show "exportData now d =
      Inr (download (''sns_analysis_dashboard_'' @ split_first (CHR ''T'') (toISOString now) @ ''.csv'')
            (unrows ([hdr_dashboard,
                      lbl_total_posts @ '','' @ or0 (total_posts st),
                      lbl_total_likes @ '','' @ or0 (total_likes st),
                      lbl_total_comments @ '','' @ or0 (total_comments st),
                      lbl_avg_engagement @ '','' @ or0 (avg_engagement st),
                      [], hdr_dashboard_engagement]
                     @ map (\<lambda>i. ls ! i @ '','' @ or0 (nth_opt vs i)) [0..<length ls])) d)"
    by (simp add: exportData_download dashboard_csv_stats_rows)
qed

theorem exportToCSV_row_order_witness:
  "currentAnalysisData (page_init\<lparr>currentAnalysisData := Some result0\<rparr>) = Some result0
   \<and> currentData (dashboard_init (Some result0) True True) = Some result0
   \<and> stats result0 = Some stats0
   \<and> engagement_data result0 = Some engagement0
   \<and> labels engagement0 = Some [''2024-01-01'', ''2024-01-02'']
   \<and> vals engagement0 = Some [Dec 5 0, Dec 25 (- 1)]
   \<and> exportToCSV date0 (page_init\<lparr>currentAnalysisData := Some result0\<rparr>) =
       Inr (download (''sns_analysis_'' @ split_first (CHR ''T'') (toISOString date0) @ ''.csv'')
             (unrows [hdr_csv, lbl_total_posts @ '',12'', lbl_avg_engagement_rate @ '',4.5%'',
                      lbl_total_impressions @ '',1500000'', lbl_follower_count @ '',2500'',
                      [], hdr_engagement, ''2024-01-01,5'', ''2024-01-02,2.5''])
             (page_init\<lparr>currentAnalysisData := Some result0\<rparr>))
   \<and> exportData date0 (dashboard_init (Some result0) True True) =
       Inr (download (''sns_analysis_dashboard_'' @ split_first (CHR ''T'') (toISOString date0) @ ''.csv'')
             (unrows [hdr_dashboard, lbl_total_posts @ '',12'', lbl_total_likes @ '',7'',
                      lbl_total_comments @ '',3'', lbl_avg_engagement @ '',4.5'',
                      [], hdr_dashboard_engagement, ''2024-01-01,5'', ''2024-01-02,2.5''])
             (dashboard_init (Some result0) True True))"
  using exportToCSV_row_order
    [of "page_init\<lparr>currentAnalysisData := Some result0\<rparr>" result0
        "dashboard_init (Some result0) True True" stats0 date0]
  by (simp add: result0_def engagement0_def stats0_def or0_examples ToString_examples
      upt_conv_Cons dashboard_init_def nth_opt_def)

subsection \<open>C2: how the exported figures are written\<close>

text \<open>
  C2 as stated: in every exported row a percentage has exactly two decimal digits and a
  trailing \<open>%\<close>, and every count is a plain integer without thousands separators.

  The first half fails. For an average engagement rate of \<open>4.5\<close> the export writes the
  row ending in \<open>4.5%\<close>, with one decimal digit, not \<open>4.50%\<close>; the page itself shows
  \<open>4.50%\<close>. The values of the engagement series are written without a \<open>%\<close>.
\<close>

theorem export_number_formats_counterexample:
  "csv_stats stats0 =
     unrows [hdr_csv, lbl_total_posts @ '',12'', lbl_avg_engagement_rate @ '',4.5%'',
             lbl_total_impressions @ '',1500000'', lbl_follower_count @ '',2500'']
   \<and> csv_stats stats0 \<noteq>
     unrows [hdr_csv, lbl_total_posts @ '',12'', lbl_avg_engagement_rate @ '',4.50%'',
             lbl_total_impressions @ '',1500000'', lbl_follower_count @ '',2500'']
   \<and> avgEngagement (projr (displayResults result0 page_init)) = ''4.50%''"
proof -
  have "csv_stats stats0 \<noteq>
     unrows [hdr_csv, lbl_total_posts @ '',12'', lbl_avg_engagement_rate @ '',4.50%'',
             lbl_total_impressions @ '',1500000'', lbl_follower_count @ '',2500'']"
    by code_simp
  then show ?thesis using csv_stats_stats0 display_result0(3) by simp
qed

text \<open>
  C2 as amended: in the rows \<^verbatim>\<open>exportToCSV\<close> writes, the average engagement rate is
  written as JavaScript prints the number (as many decimal digits as the number has),
  followed by \<open>%\<close>, and as \<open>0%\<close> when it is missing or zero; \<^verbatim>\<open>exportData\<close> writes it
  the same way without the \<open>%\<close>. Two decimal digits are produced only for the value shown
  on the page. Every count is written as its plain decimal digits, without separators. The
  values of the engagement series are written as JavaScript prints them, without a \<open>%\<close>.
\<close>

theorem export_number_formats:
  assumes "total_posts st = Some (Dec a 0)" and "0 \<le> a" and "a < 2 ^ 53"
    and "total_impressions st = Some (Dec b 0)" and "0 \<le> b" and "b < 2 ^ 53"
    and "follower_count st = Some (Dec c 0)" and "0 \<le> c" and "c < 2 ^ 53"
  shows "csv_stats st =
           unrows [hdr_csv,
                   lbl_total_posts @ '','' @ show_dec a,
                   lbl_avg_engagement_rate @ '','' @
                     (case avg_engagement st of None \<Rightarrow> ''0''
                      | Some v \<Rightarrow> if dbl v = 0 then ''0'' else ToString v) @ ''%'',
                   lbl_total_impressions @ '','' @ show_dec b,
                   lbl_follower_count @ '','' @ show_dec c]
       \<and> dashboard_csv_stats st =
           unrows [hdr_dashboard,
                   lbl_total_posts @ '','' @ show_dec a,
                   lbl_total_likes @ '','' @ or0 (total_likes st),
                   lbl_total_comments @ '','' @ or0 (total_comments st),
                   lbl_avg_engagement @ '','' @
                     (case avg_engagement st of None \<Rightarrow> ''0''
                      | Some v \<Rightarrow> if dbl v = 0 then ''0'' else ToString v)]
       \<and> set (show_dec a) \<subseteq> set ''0123456789''
       \<and> set (show_dec b) \<subseteq> set ''0123456789''
       \<and> set (show_dec c) \<subseteq> set ''0123456789''
       \<and> csv_loop 0 ls (Some vs) csv =
           Inr (csv @ unrows (map (\<lambda>i. ls ! i @ '','' @
                                    (if i < length vs then ToString (vs ! i) else ''undefined''))
                               [0..<length ls]))"
proof -
  have avg: "or0 (avg_engagement st) =
      (case avg_engagement st of None \<Rightarrow> ''0'' | Some v \<Rightarrow> if dbl v = 0 then ''0'' else ToString v)"
    by (simp add: or0_def truthy_def split: option.splits)
  have "csv_stats st =
           unrows [hdr_csv,
                   lbl_total_posts @ '','' @ show_dec a,
                   lbl_avg_engagement_rate @ '','' @
                     (case avg_engagement st of None \<Rightarrow> ''0''
                      | Some v \<Rightarrow> if dbl v = 0 then ''0'' else ToString v) @ ''%'',
                   lbl_total_impressions @ '','' @ show_dec b,
                   lbl_follower_count @ '','' @ show_dec c]"
    using assms by (simp add: csv_stats_rows or0_count flip: avg)
  moreover have "dashboard_csv_stats st =
           unrows [hdr_dashboard,
                   lbl_total_posts @ '','' @ show_dec a,
                   lbl_total_likes @ '','' @ or0 (total_likes st),
                   lbl_total_comments @ '','' @ or0 (total_comments st),
                   lbl_avg_engagement @ '','' @
                     (case avg_engagement st of None \<Rightarrow> ''0''
                      | Some v \<Rightarrow> if dbl v = 0 then ''0'' else ToString v)]"
    using assms by (simp add: dashboard_csv_stats_rows or0_count flip: avg)
  moreover have "csv_loop 0 ls (Some vs) csv =
           Inr (csv @ unrows (map (\<lambda>i. ls ! i @ '','' @
                                    (if i < length vs then ToString (vs ! i) else ''undefined''))
                               [0..<length ls]))"
    by (rule csv_loop_rows) simp
  ultimately show ?thesis
    using show_dec_digits [OF assms(2)] show_dec_digits [OF assms(5)] show_dec_digits [OF assms(8)]
    by simp
qed

theorem export_number_formats_witness:
  "total_posts stats0 = Some (Dec 12 0) \<and> (0::int) \<le> 12 \<and> (12::int) < 2 ^ 53
   \<and> total_impressions stats0 = Some (Dec 1500000 0) \<and> (0::int) \<le> 1500000 \<and> (1500000::int) < 2 ^ 53
   \<and> follower_count stats0 = Some (Dec 2500 0) \<and> (0::int) \<le> 2500 \<and> (2500::int) < 2 ^ 53
   \<and> csv_stats stats0 =
       unrows [hdr_csv, lbl_total_posts @ '',12'', lbl_avg_engagement_rate @ '',4.5%'',
               lbl_total_impressions @ '',1500000'', lbl_follower_count @ '',2500'']
   \<and> dashboard_csv_stats stats0 =
       unrows [hdr_dashboard, lbl_total_posts @ '',12'', lbl_total_likes @ '',7'',
               lbl_total_comments @ '',3'', lbl_avg_engagement @ '',4.5'']
   \<and> csv_loop 0 [''2024-01-01'', ''2024-01-02''] (Some [Dec 5 0, Dec 25 (- 1)]) [] =
       Inr (unrows [''2024-01-01,5'', ''2024-01-02,2.5''])"
  using export_number_formats
    [of stats0 12 1500000 2500 "[''2024-01-01'', ''2024-01-02'']"
       "[Dec 5 0, Dec 25 (- 1)]" "[]"]
  by (simp add: stats0_def show_dec_examples formatNumber_examples dbl_example ToString_examples
      or0_examples upt_conv_Cons)

subsection \<open>C3: an export before any result\<close>

text \<open>
  C3 as stated: an export invoked while no result is stored fails with an
  \<^verbatim>\<open>EmptyResultError\<close> that is reported to the caller, and produces no file.

  No export fails in that case. Each of them tests the stored result first, shows an alert
  and returns (main.js lines 227 to 230 and 263 to 266, dashboard.js lines 388 to 391):
  nothing is thrown, so the caller is told nothing, and the scripts have no
  \<^verbatim>\<open>EmptyResultError\<close>. On the page as it loads, \<^verbatim>\<open>exportToCSV\<close> and
  \<^verbatim>\<open>exportData\<close> return normally (\<open>Inr\<close>, where a failure is \<open>Inl\<close>), and the state
  they and \<^verbatim>\<open>exportToGoogleSheets\<close> return is the state before with one alert added.
\<close>

theorem export_without_result_counterexample:
  "currentAnalysisData page_init = None
   \<and> \<not> isl (exportToCSV date0 page_init)
   \<and> projr (exportToCSV date0 page_init) = page_init\<lparr>alerts := [msg_no_data]\<rparr>
   \<and> exportToGoogleSheets NetworkError page_init = page_init\<lparr>alerts := [msg_no_data]\<rparr>
   \<and> currentData (dashboard_init None True True) = None
   \<and> \<not> isl (exportData date0 (dashboard_init None True True))
   \<and> projr (exportData date0 (dashboard_init None True True))
       = (dashboard_init None True True)\<lparr>alerts := [msg_no_data]\<rparr>"
  by (simp add: exportToCSV_def exportToGoogleSheets_def exportData_def alert_def page_init_def
      dashboard_init_def)

text \<open>
  C3 as amended: an export invoked while no result is stored
  (\<^verbatim>\<open>window.currentAnalysisData\<close> on the analysis page, \<^verbatim>\<open>currentData\<close> on the
  dashboard) tells the user with an alert that there is nothing to export, and returns
  normally. Each of \<^verbatim>\<open>exportToCSV\<close>, \<^verbatim>\<open>exportToGoogleSheets\<close> and \<^verbatim>\<open>exportData\<close>
  then does that one thing only: no file is downloaded (in particular no empty one), and
  no request is sent.
\<close>

theorem export_without_result_is_reported:
  assumes "currentAnalysisData s = None" and "currentData d = None"
  shows "exportToCSV now s = Inr (alert msg_no_data s)
       \<and> exportToGoogleSheets reply s = alert msg_no_data s
       \<and> exportData now d = Inr (alert msg_no_data d)
       \<and> alerts (alert msg_no_data s) = alerts s @ [msg_no_data]
       \<and> downloads (alert msg_no_data s) = downloads s
       \<and> requests (alert msg_no_data s) = requests s
       \<and> alerts (alert msg_no_data d) = alerts d @ [msg_no_data]
       \<and> downloads (alert msg_no_data d) = downloads d"
  using assms by (simp add: exportToCSV_def exportToGoogleSheets_def exportData_def alert_def)

theorem export_without_result_is_reported_witness:
  "currentAnalysisData page_init = None
   \<and> currentData (dashboard_init None True True) = None
   \<and> exportToCSV date0 page_init = Inr (alert msg_no_data page_init)
   \<and> exportToGoogleSheets NetworkError page_init = alert msg_no_data page_init
   \<and> exportData date0 (dashboard_init None True True) =
       Inr (alert msg_no_data (dashboard_init None True True))
   \<and> alerts (alert msg_no_data page_init) = [msg_no_data]
   \<and> downloads (alert msg_no_data page_init) = []
   \<and> downloads (alert msg_no_data (dashboard_init None True True)) = []"
  using export_without_result_is_reported
    [of page_init "dashboard_init None True True" date0 NetworkError]
  by (simp add: page_init_def dashboard_init_def)

subsection \<open>C4: validation of the request\<close>

lemma requests_createEngagementChart [simp]: "requests (createEngagementChart d s) = requests s"
  by (simp add: createEngagementChart_def Let_def register_def destroy_def split: option.splits)

lemma requests_createTimingChart [simp]: "requests (createTimingChart d s) = requests s"
  by (simp add: createTimingChart_def Let_def register_def destroy_def split: option.splits)

lemma requests_displayResults: "displayResults r s = Inr s' \<Longrightarrow> requests s' = requests s"
  by (auto simp: displayResults_def Let_def split: option.splits)

lemma requests_analysis_failed [simp]: "requests (analysis_failed s) = requests s"
  by (simp add: analysis_failed_def effect_defs)

text \<open>
  C4 as stated: a request in which the platform, the user name or the period is absent, or
  no analysis type is selected, fails with an \<^verbatim>\<open>InvalidRequestError\<close> before any work
  begins.

  \<^verbatim>\<open>handleFormSubmit\<close> does not fail: it shows an alert and returns (main.js lines 46 to
  54). Nothing is thrown, the scripts have no \<^verbatim>\<open>InvalidRequestError\<close>, and whatever is
  thrown further down is caught (lines 75 to 77), so the function has no failure at all
  and its result is a state of the page. For a form without a user name that state is the
  page as it loaded with the alert that a required field is missing; for a form with no
  analysis type, with the alert that one has to be selected.
\<close>

theorem handleFormSubmit_refusal_counterexample:
  "missing (username (form0\<lparr>username := None\<rparr>))
   \<and> handleFormSubmit (form0\<lparr>username := None\<rparr>) (Response True 200 (Some result0)) page_init
       = page_init\<lparr>alerts := [msg_required]\<rparr>
   \<and> analysis_types (form0\<lparr>analysis_types := []\<rparr>) = []
   \<and> handleFormSubmit (form0\<lparr>analysis_types := []\<rparr>) (Response True 200 (Some result0)) page_init
       = page_init\<lparr>alerts := [msg_select_type]\<rparr>"
  by (simp add: handleFormSubmit_def missing_def form0_def alert_def page_init_def)

text \<open>
  C4 as amended: a request in which the platform, the user name or the period is absent, or
  no analysis type is selected, is refused with an alert before any work begins, and
  \<^verbatim>\<open>handleFormSubmit\<close> returns normally; every other request passes validation and is
  sent. A field is absent when the form does not have it or its text is empty: that is
  what \<open>!\<close> tests (\<open>missing\<close>). An absent field gives the alert that the required fields
  must be filled in; otherwise an empty selection gives the alert that an analysis type
  must be selected. A refused request leaves the page as it was but for that one alert:
  nothing is fetched, the loading spinner is not shown, no chart is made, no result is
  displayed or stored. Any other request is sent to \<^verbatim>\<open>/api/analyze\<close>, once, whatever the
  reply.
\<close>

theorem handleFormSubmit_validates_first:
  "(missing (platform data) \<or> missing (username data) \<or> missing (period data)
      \<or> analysis_types data = [] \<longrightarrow>
      (handleFormSubmit data reply s = alert msg_required s
         \<or> handleFormSubmit data reply s = alert msg_select_type s)
      \<and> requests (handleFormSubmit data reply s) = requests s)
   \<and> (\<not> (missing (platform data) \<or> missing (username data) \<or> missing (period data)
           \<or> analysis_types data = []) \<longrightarrow>
      requests (handleFormSubmit data reply s) = requests s @ [(''/api/analyze'', AnalyzeRequest data)])
   \<and> (missing (platform data) \<or> missing (username data) \<or> missing (period data) \<longrightarrow>
      handleFormSubmit data reply s = alert msg_required s)
   \<and> (\<not> (missing (platform data) \<or> missing (username data) \<or> missing (period data))
        \<and> analysis_types data = [] \<longrightarrow>
      handleFormSubmit data reply s = alert msg_select_type s)
   \<and> alert m s = s\<lparr>alerts := alerts s @ [m]\<rparr>"
  by (auto simp: handleFormSubmit_def Let_def hideLoading_def showLoading_def effect_defs
      analysis_failed_def dest!: requests_displayResults split: response.splits option.splits sum.splits)

theorem handleFormSubmit_validates_first_witness:
  "missing (username (form0\<lparr>username := None\<rparr>))
   \<and> handleFormSubmit (form0\<lparr>username := None\<rparr>) (Response True 200 (Some result0)) page_init
       = alert msg_required page_init
   \<and> requests (handleFormSubmit (form0\<lparr>username := None\<rparr>) (Response True 200 (Some result0)) page_init) = []
   \<and> analysis_types (form0\<lparr>analysis_types := []\<rparr>) = []
   \<and> handleFormSubmit (form0\<lparr>analysis_types := []\<rparr>) (Response True 200 (Some result0)) page_init
       = alert msg_select_type page_init
   \<and> \<not> (missing (platform form0) \<or> missing (username form0) \<or> missing (period form0)
           \<or> analysis_types form0 = [])
   \<and> requests (handleFormSubmit form0 (Response True 200 (Some result0)) page_init)
       = [(''/api/analyze'', AnalyzeRequest form0)]"
proof -
  have a: "missing (username (form0\<lparr>username := None\<rparr>))"
    and b: "analysis_types (form0\<lparr>analysis_types := []\<rparr>) = []"
    and c: "\<not> (missing (platform form0) \<or> missing (username form0) \<or> missing (period form0)
           \<or> analysis_types form0 = [])"
    and d: "\<not> missing (platform (form0\<lparr>analysis_types := []\<rparr>))"
      "\<not> missing (username (form0\<lparr>analysis_types := []\<rparr>))"
      "\<not> missing (period (form0\<lparr>analysis_types := []\<rparr>))"
    by (simp_all add: missing_def form0_def)
  have r0: "requests page_init = []" by (simp add: page_init_def)
  have e: "handleFormSubmit (form0\<lparr>username := None\<rparr>) (Response True 200 (Some result0)) page_init
       = alert msg_required page_init"
    using a by (simp add: handleFormSubmit_def)
  have f: "handleFormSubmit (form0\<lparr>analysis_types := []\<rparr>) (Response True 200 (Some result0)) page_init
       = alert msg_select_type page_init"
    using d by (simp add: handleFormSubmit_def)
  from handleFormSubmit_validates_first [of form0 "Response True 200 (Some result0)" page_init] c
  have g: "requests (handleFormSubmit form0 (Response True 200 (Some result0)) page_init)
       = [(''/api/analyze'', AnalyzeRequest form0)]"
    using r0 by simp
  from handleFormSubmit_validates_first
    [of "form0\<lparr>username := None\<rparr>" "Response True 200 (Some result0)" page_init] a
  have h: "requests (handleFormSubmit (form0\<lparr>username := None\<rparr>) (Response True 200 (Some result0)) page_init) = []"
    using r0 by simp
  from a b c e f g h show ?thesis by simp
qed

subsection \<open>C5: the export is a function of the result\<close>

lemma currentAnalysisData_effects [simp]:
  "currentAnalysisData (download name csv s) = currentAnalysisData s"
  "currentAnalysisData (alert msg s) = currentAnalysisData s"
  "currentData (download name csv d) = currentData d"
  "currentData (alert msg d) = currentData d"
  by (simp_all add: effect_defs)

text \<open>
  C5: exporting the same result twice gives the same rows. The text \<^verbatim>\<open>exportToCSV\<close>
  downloads is \<open>csv_text\<close> of the stored result, which reads neither the clock nor
  anything else of the page; an export leaves the stored result as it was, so a second
  export, at any later time, downloads the same text again (only the file name follows the
  date). When the text cannot be built the export fails, and fails again the same way. The
  dashboard's \<^verbatim>\<open>exportData\<close> behaves alike with \<open>dashboard_csv_text\<close>.
\<close>

theorem exportToCSV_deterministic:
  assumes "currentAnalysisData s = Some r" and "currentData d = Some r"
  shows "(\<forall>csv. csv_text r = Inr csv \<longrightarrow>
            (\<exists>s1 s2. exportToCSV t1 s = Inr s1 \<and> exportToCSV t2 s1 = Inr s2
               \<and> downloads s1 = downloads s @ [(''sns_analysis_'' @ split_first (CHR ''T'') (toISOString t1) @ ''.csv'', csv)]
               \<and> downloads s2 = downloads s1 @ [(''sns_analysis_'' @ split_first (CHR ''T'') (toISOString t2) @ ''.csv'', csv)]
               \<and> currentAnalysisData s2 = Some r))
       \<and> (\<forall>e. csv_text r = Inl e \<longrightarrow> exportToCSV t1 s = Inl e \<and> exportToCSV t2 s = Inl e)
       \<and> (\<forall>csv. dashboard_csv_text r = Inr csv \<longrightarrow>
            (\<exists>d1 d2. exportData t1 d = Inr d1 \<and> exportData t2 d1 = Inr d2
               \<and> downloads d1 = downloads d @ [(''sns_analysis_dashboard_'' @ split_first (CHR ''T'') (toISOString t1) @ ''.csv'', csv)]
               \<and> downloads d2 = downloads d1 @ [(''sns_analysis_dashboard_'' @ split_first (CHR ''T'') (toISOString t2) @ ''.csv'', csv)]
               \<and> currentData d2 = Some r))
       \<and> (\<forall>e. dashboard_csv_text r = Inl e \<longrightarrow> exportData t1 d = Inl e \<and> exportData t2 d = Inl e)"
proof (intro conjI allI impI)
  fix csv
  assume csv: "csv_text r = Inr csv"
  let ?s1 = "download (''sns_analysis_'' @ split_first (CHR ''T'') (toISOString t1) @ ''.csv'') csv s"
  let ?s2 = "download (''sns_analysis_'' @ split_first (CHR ''T'') (toISOString t2) @ ''.csv'') csv ?s1"
  have 1: "exportToCSV t1 s = Inr ?s1" using assms(1) csv by (rule exportToCSV_download)
  have "currentAnalysisData ?s1 = Some r" using assms(1) by simp
  then have 2: "exportToCSV t2 ?s1 = Inr ?s2" using csv by (rule exportToCSV_download)
  have "downloads ?s1 = downloads s @ [(''sns_analysis_'' @ split_first (CHR ''T'') (toISOString t1) @ ''.csv'', csv)]"
    and "downloads ?s2 = downloads ?s1 @ [(''sns_analysis_'' @ split_first (CHR ''T'') (toISOString t2) @ ''.csv'', csv)]"
    and "currentAnalysisData ?s2 = Some r"
    using assms(1) by (simp_all add: download_def)
  with 1 2 show "\<exists>s1 s2. exportToCSV t1 s = Inr s1 \<and> exportToCSV t2 s1 = Inr s2
      \<and> downloads s1 = downloads s @ [(''sns_analysis_'' @ split_first (CHR ''T'') (toISOString t1) @ ''.csv'', csv)]
      \<and> downloads s2 = downloads s1 @ [(''sns_analysis_'' @ split_first (CHR ''T'') (toISOString t2) @ ''.csv'', csv)]
      \<and> currentAnalysisData s2 = Some r"
    by blast
next
  fix e
  assume "csv_text r = Inl e"
  with assms(1) show "exportToCSV t1 s = Inl e" by (rule exportToCSV_error)
next
  fix e
  assume "csv_text r = Inl e"
  with assms(1) show "exportToCSV t2 s = Inl e" by (rule exportToCSV_error)
next
  fix csv
  assume csv: "dashboard_csv_text r = Inr csv"
  let ?d1 = "download (''sns_analysis_dashboard_'' @ split_first (CHR ''T'') (toISOString t1) @ ''.csv'') csv d"
  let ?d2 = "download (''sns_analysis_dashboard_'' @ split_first (CHR ''T'') (toISOString t2) @ ''.csv'') csv ?d1"
  have 1: "exportData t1 d = Inr ?d1" using assms(2) csv by (rule exportData_download)
  have "currentData ?d1 = Some r" using assms(2) by simp
  then have 2: "exportData t2 ?d1 = Inr ?d2" using csv by (rule exportData_download)
  have "downloads ?d1 = downloads d @ [(''sns_analysis_dashboard_'' @ split_first (CHR ''T'') (toISOString t1) @ ''.csv'', csv)]"
    and "downloads ?d2 = downloads ?d1 @ [(''sns_analysis_dashboard_'' @ split_first (CHR ''T'') (toISOString t2) @ ''.csv'', csv)]"
    and "currentData ?d2 = Some r"
    using assms(2) by (simp_all add: download_def)
  with 1 2 show "\<exists>d1 d2. exportData t1 d = Inr d1 \<and> exportData t2 d1 = Inr d2
      \<and> downloads d1 = downloads d @ [(''sns_analysis_dashboard_'' @ split_first (CHR ''T'') (toISOString t1) @ ''.csv'', csv)]
      \<and> downloads d2 = downloads d1 @ [(''sns_analysis_dashboard_'' @ split_first (CHR ''T'') (toISOString t2) @ ''.csv'', csv)]
      \<and> currentData d2 = Some r"
    by blast
next
  fix e
  assume "dashboard_csv_text r = Inl e"
  with assms(2) show "exportData t1 d = Inl e" by (rule exportData_error)
next
  fix e
  assume "dashboard_csv_text r = Inl e"
  with assms(2) show "exportData t2 d = Inl e" by (rule exportData_error)
qed

theorem exportToCSV_deterministic_witness:
  "currentAnalysisData (page_init\<lparr>currentAnalysisData := Some result0\<rparr>) = Some result0
   \<and> currentData (dashboard_init (Some result0) True True) = Some result0
   \<and> (\<exists>csv s1 s2. csv_text result0 = Inr csv
        \<and> exportToCSV date0 (page_init\<lparr>currentAnalysisData := Some result0\<rparr>) = Inr s1
        \<and> exportToCSV date1 s1 = Inr s2
        \<and> downloads s2 = [(''sns_analysis_2026-11-02.csv'', csv), (''sns_analysis_2026-11-03.csv'', csv)])"
proof -
  obtain csv where csv: "csv_text result0 = Inr csv" using csv_text_result0 by blast
  have cur: "currentAnalysisData (page_init\<lparr>currentAnalysisData := Some result0\<rparr>) = Some result0"
    by simp
  have curd: "currentData (dashboard_init (Some result0) True True) = Some result0"
    by (simp add: dashboard_init_def)
  from exportToCSV_deterministic [OF cur curd, of date0 date1] csv
  obtain s1 s2 where "exportToCSV date0 (page_init\<lparr>currentAnalysisData := Some result0\<rparr>) = Inr s1"
    and "exportToCSV date1 s1 = Inr s2"
    and "downloads s1 = downloads (page_init\<lparr>currentAnalysisData := Some result0\<rparr>)
           @ [(''sns_analysis_'' @ split_first (CHR ''T'') (toISOString date0) @ ''.csv'', csv)]"
    and "downloads s2 = downloads s1
           @ [(''sns_analysis_'' @ split_first (CHR ''T'') (toISOString date1) @ ''.csv'', csv)]"
    by blast
  then show ?thesis using csv cur curd by (auto simp: iso_date_examples page_init_def)
qed

subsection \<open>C6: the timing histogram, displayed and exported\<close>

text \<open>
  C6 as stated: the histogram is cut to its first eight buckets only for display, and the
  full histogram is kept and included in the export.

  The export half fails for both CSV exports. The sample result has a histogram of ten
  buckets; \<^verbatim>\<open>exportData\<close> and \<^verbatim>\<open>exportToCSV\<close> write for it exactly the text they write
  for the same result with the histogram taken out.
\<close>

theorem timing_histogram_counterexample:
  "timing_data result0 = Some timing0
   \<and> length (or_empty (labels timing0)) = 10
   \<and> dashboard_csv_text result0 = dashboard_csv_text (result0\<lparr>timing_data := None\<rparr>)
   \<and> csv_text result0 = csv_text (result0\<lparr>timing_data := None\<rparr>)"
  by (simp add: result0_def timing0_def or_empty_def csv_text_def dashboard_csv_text_def)

text \<open>
  C6 as amended: the dashboard's chart shows only the first eight buckets of the timing
  histogram (the chart of the analysis page shows all of them); the stored result keeps the
  full histogram, and the spreadsheet export sends the stored result as it is, histogram
  included; the CSV exports (\<^verbatim>\<open>exportToCSV\<close>, \<^verbatim>\<open>exportData\<close>) do not write the timing
  histogram at all.
\<close>

theorem timing_histogram_display_and_export:
  assumes "has_timingChart_canvas d" and "currentData d = Some r" and "timing_data r = Some td"
    and "currentAnalysisData p = Some r"
  shows "(\<exists>d' c. createTimingChartDashboard d = Inr d' \<and> timingChart_dashboard d' = Some c
            \<and> chart_labels c = Some (take 8 (or_empty (labels td)))
            \<and> chart_data c = Some (take 8 (or_empty (vals td)))
            \<and> currentData d' = Some r)
       \<and> (\<exists>c. timingChart (createTimingChart td p) = Some c
            \<and> chart_labels c = labels td \<and> chart_data c = vals td)
       \<and> requests (exportToGoogleSheets reply p) = requests p @ [(''/api/export/sheets'', SheetsRequest r)]
       \<and> csv_text (r\<lparr>timing_data := t\<rparr>) = csv_text r
       \<and> dashboard_csv_text (r\<lparr>timing_data := t\<rparr>) = dashboard_csv_text r"
proof -
  have "\<exists>d' c. createTimingChartDashboard d = Inr d' \<and> timingChart_dashboard d' = Some c
            \<and> chart_labels c = Some (take 8 (or_empty (labels td)))
            \<and> chart_data c = Some (take 8 (or_empty (vals td)))
            \<and> currentData d' = Some r"
    using assms(1-3)
    by (simp add: createTimingChartDashboard_def Let_def new_Chart_def register_def destroy_def
        split: option.splits)
  moreover have "\<exists>c. timingChart (createTimingChart td p) = Some c
            \<and> chart_labels c = labels td \<and> chart_data c = vals td"
    by (simp add: createTimingChart_def Let_def new_Chart_def register_def)
  moreover have "requests (exportToGoogleSheets reply p) = requests p @ [(''/api/export/sheets'', SheetsRequest r)]"
    using assms(4)
    by (simp add: exportToGoogleSheets_def Let_def sheets_failed_def effect_defs
        split: response.splits option.splits)
  ultimately show ?thesis
    by (simp add: csv_text_ignores_timing dashboard_csv_text_ignores_timing)
qed

theorem timing_histogram_display_and_export_witness:
  "has_timingChart_canvas (dashboard_init (Some result0) True True)
   \<and> currentData (dashboard_init (Some result0) True True) = Some result0
   \<and> timing_data result0 = Some timing0
   \<and> currentAnalysisData (page_init\<lparr>currentAnalysisData := Some result0\<rparr>) = Some result0
   \<and> (\<exists>d' c. createTimingChartDashboard (dashboard_init (Some result0) True True) = Inr d'
        \<and> timingChart_dashboard d' = Some c
        \<and> chart_labels c = Some [''18:00'', ''12:00'', ''20:00'', ''08:00'', ''21:00'', ''09:00'',
                                   ''19:00'', ''07:00'']
        \<and> currentData d' = Some result0)
   \<and> requests (exportToGoogleSheets NetworkError (page_init\<lparr>currentAnalysisData := Some result0\<rparr>))
       = [(''/api/export/sheets'', SheetsRequest result0)]"
proof -
  have h1: "has_timingChart_canvas (dashboard_init (Some result0) True True)"
    and h2: "currentData (dashboard_init (Some result0) True True) = Some result0"
    and h3: "timing_data result0 = Some timing0"
    and h4: "currentAnalysisData (page_init\<lparr>currentAnalysisData := Some result0\<rparr>) = Some result0"
    by (simp_all add: dashboard_init_def result0_def)
  have l: "take 8 (or_empty (labels timing0)) =
      [''18:00'', ''12:00'', ''20:00'', ''08:00'', ''21:00'', ''09:00'', ''19:00'', ''07:00'']"
    by (simp add: timing0_def or_empty_def)
  have r: "requests (page_init\<lparr>currentAnalysisData := Some result0\<rparr>) = []"
    by (simp add: page_init_def)
  from timing_histogram_display_and_export [OF h1 h2 h3 h4, of NetworkError None]
  obtain d' c where "createTimingChartDashboard (dashboard_init (Some result0) True True) = Inr d'"
    and "timingChart_dashboard d' = Some c"
    and "chart_labels c = Some (take 8 (or_empty (labels timing0)))"
    and "currentData d' = Some result0"
    and "requests (exportToGoogleSheets NetworkError (page_init\<lparr>currentAnalysisData := Some result0\<rparr>))
       = requests (page_init\<lparr>currentAnalysisData := Some result0\<rparr>)
         @ [(''/api/export/sheets'', SheetsRequest result0)]"
    by blast
  then show ?thesis using h1 h2 h3 h4 l r by auto
qed

subsection \<open>C7: figures that are unset and figures that are zero\<close>

lemma created_createEngagementChart:
  "created (createEngagementChart d s) =
     \<lparr>chart_id = length (created s), canvas = ''engagementChart'', chart_type = ''line'',
      chart_labels = labels d, chart_data = vals d\<rparr> # created s"
  by (simp add: createEngagementChart_def Let_def new_Chart_def register_def destroy_def
      split: option.splits)

lemma created_createTimingChart:
  "created (createTimingChart d s) =
     \<lparr>chart_id = length (created s), canvas = ''timingChart'', chart_type = ''bar'',
      chart_labels = labels d, chart_data = vals d\<rparr> # created s"
  by (simp add: createTimingChart_def Let_def new_Chart_def register_def destroy_def
      split: option.splits)

lemma variable_createEngagementChart:
  "engagementChart (createEngagementChart d s) =
     Some \<lparr>chart_id = length (created s), canvas = ''engagementChart'', chart_type = ''line'',
           chart_labels = labels d, chart_data = vals d\<rparr>"
  "timingChart (createEngagementChart d s) = timingChart s"
  by (simp_all add: createEngagementChart_def Let_def new_Chart_def register_def destroy_def
      split: option.splits)

lemma variable_createTimingChart:
  "timingChart (createTimingChart d s) =
     Some \<lparr>chart_id = length (created s), canvas = ''timingChart'', chart_type = ''bar'',
           chart_labels = labels d, chart_data = vals d\<rparr>"
  "engagementChart (createTimingChart d s) = engagementChart s"
  by (simp_all add: createTimingChart_def Let_def new_Chart_def register_def destroy_def
      split: option.splits)

lemma text_createEngagementChart [simp]:
  "totalPosts (createEngagementChart d s) = totalPosts s"
  "avgEngagement (createEngagementChart d s) = avgEngagement s"
  "totalImpressions (createEngagementChart d s) = totalImpressions s"
  "followerCount (createEngagementChart d s) = followerCount s"
  by (simp_all add: createEngagementChart_def Let_def register_def destroy_def split: option.splits)

lemma text_createTimingChart [simp]:
  "totalPosts (createTimingChart d s) = totalPosts s"
  "avgEngagement (createTimingChart d s) = avgEngagement s"
  "totalImpressions (createTimingChart d s) = totalImpressions s"
  "followerCount (createTimingChart d s) = followerCount s"
  by (simp_all add: createTimingChart_def Let_def register_def destroy_def split: option.splits)

lemma requests_exportToGoogleSheets:
  "currentAnalysisData p = Some r \<Longrightarrow>
   requests (exportToGoogleSheets reply p) = requests p @ [(''/api/export/sheets'', SheetsRequest r)]"
  by (simp add: exportToGoogleSheets_def Let_def sheets_failed_def effect_defs
      split: response.splits option.splits)

text \<open>
  C7 as stated: a field of an analysis type that was not requested is left unset, and
  every consumer tells a figure that is unset from one computed as zero; an unset series
  makes no chart, and a statistic computed as zero is still shown as \<open>0\<close>.

  The part on the statistics fails: \<^verbatim>\<open>displayResults\<close> shows \<open>-\<close> for a total of posts
  that is zero, exactly as for one that is unset, and \<^verbatim>\<open>exportToCSV\<close> writes \<open>0\<close> for
  both.
\<close>

theorem displayResults_zero_counterexample:
  "\<not> isl (displayResults (result0\<lparr>stats := Some (stats0\<lparr>total_posts := Some (Dec 0 0)\<rparr>)\<rparr>) page_init)
   \<and> totalPosts (projr (displayResults
         (result0\<lparr>stats := Some (stats0\<lparr>total_posts := Some (Dec 0 0)\<rparr>)\<rparr>) page_init)) = ''-''
   \<and> totalPosts (projr (displayResults
         (result0\<lparr>stats := Some (stats0\<lparr>total_posts := None\<rparr>)\<rparr>) page_init)) = ''-''
   \<and> or0 (Some (Dec 0 0)) = or0 None"
  by code_simp

text \<open>
  C7 as amended: a field of an analysis type that was not requested is left unset (not
  zero), and one that was requested is populated. A series that is unset makes no chart, on
  the analysis page and on the dashboard, and no rows in the CSV exports; a series that is
  present makes a chart with the labels and values of the series. A statistic is shown as
  \<open>-\<close> both when it is unset and when it is zero, and the CSV exports write \<open>0\<close> in both
  cases; any other value is shown (the total of posts as JavaScript prints it, the average
  engagement rate with two decimal digits and \<open>%\<close>, impressions and followers abbreviated
  by \<^verbatim>\<open>formatNumber\<close>). Among the consumers only the spreadsheet export, which sends the
  stored result as it is, keeps an unset statistic apart from a zero one: different results
  give different requests.

  The first sentence is about the producer of the result and is stated of \<open>aggregate\<close>; the
  others are about the scripts.
\<close>

theorem displayResults_unset_and_zero:
  assumes "stats r = Some st"
  shows "(\<exists>s'. displayResults r s = Inr s'
       \<and> totalPosts s' =
           (case total_posts st of None \<Rightarrow> ''-'' | Some x \<Rightarrow> if dbl x = 0 then ''-'' else ToString x)
       \<and> avgEngagement s' =
           (case avg_engagement st of None \<Rightarrow> ''-''
            | Some x \<Rightarrow> if dbl x = 0 then ''-'' else toFixed 2 (dbl x) @ ''%'')
       \<and> totalImpressions s' =
           (case total_impressions st of None \<Rightarrow> ''-''
            | Some x \<Rightarrow> if dbl x = 0 then ''-'' else formatNumber x)
       \<and> followerCount s' =
           (case follower_count st of None \<Rightarrow> ''-''
            | Some x \<Rightarrow> if dbl x = 0 then ''-'' else formatNumber x)
       \<and> (engagement_data r = None \<longrightarrow>
            engagementChart s' = engagementChart s
            \<and> filter (\<lambda>c. canvas c = ''engagementChart'') (created s')
                = filter (\<lambda>c. canvas c = ''engagementChart'') (created s))
       \<and> (\<forall>d. engagement_data r = Some d \<longrightarrow>
            (\<exists>c. engagementChart s' = Some c \<and> c \<in> set (created s') \<and> length (created s) \<le> chart_id c
               \<and> chart_labels c = labels d \<and> chart_data c = vals d))
       \<and> (timing_data r = None \<longrightarrow>
            timingChart s' = timingChart s
            \<and> filter (\<lambda>c. canvas c = ''timingChart'') (created s')
                = filter (\<lambda>c. canvas c = ''timingChart'') (created s))
       \<and> (\<forall>d. timing_data r = Some d \<longrightarrow>
            (\<exists>c. timingChart s' = Some c \<and> c \<in> set (created s') \<and> length (created s) \<le> chart_id c
               \<and> chart_labels c = labels d \<and> chart_data c = vals d))
       \<and> or0 None = ''0''
       \<and> (dbl x = 0 \<longrightarrow> or0 (Some x) = ''0''))
     \<and> stats (aggregate requestedTypes st' es th) = Some st'
     \<and> (Engagement \<notin> requestedTypes \<longrightarrow> engagement_data (aggregate requestedTypes st' es th) = None)
     \<and> (Engagement \<in> requestedTypes \<longrightarrow> engagement_data (aggregate requestedTypes st' es th) = Some es)
     \<and> (Timing \<notin> requestedTypes \<longrightarrow> timing_data (aggregate requestedTypes st' es th) = None)
     \<and> (Timing \<in> requestedTypes \<longrightarrow> timing_data (aggregate requestedTypes st' es th) = Some th)
     \<and> (engagement_data r = None \<longrightarrow>
          csv_text r = Inr (csv_stats st) \<and> dashboard_csv_text r = Inr (dashboard_csv_stats st))
     \<and> (currentData db = Some r \<and> engagement_data r = None \<longrightarrow> createMainChart db = Inr db)
     \<and> (currentData db = Some r \<and> timing_data r = None \<longrightarrow> createTimingChartDashboard db = Inr db)
     \<and> (currentAnalysisData p = Some r \<longrightarrow>
          requests (exportToGoogleSheets reply p)
            = requests p @ [(''/api/export/sheets'', SheetsRequest r)])
     \<and> (currentAnalysisData p = Some r \<and> currentAnalysisData p' = Some r' \<and> r \<noteq> r' \<longrightarrow>
          last (requests (exportToGoogleSheets reply p))
            \<noteq> last (requests (exportToGoogleSheets reply' p')))"
proof -
  have shown: "\<exists>s'. displayResults r s = Inr s'
       \<and> totalPosts s' =
           (case total_posts st of None \<Rightarrow> ''-'' | Some x \<Rightarrow> if dbl x = 0 then ''-'' else ToString x)
       \<and> avgEngagement s' =
           (case avg_engagement st of None \<Rightarrow> ''-''
            | Some x \<Rightarrow> if dbl x = 0 then ''-'' else toFixed 2 (dbl x) @ ''%'')
       \<and> totalImpressions s' =
           (case total_impressions st of None \<Rightarrow> ''-''
            | Some x \<Rightarrow> if dbl x = 0 then ''-'' else formatNumber x)
       \<and> followerCount s' =
           (case follower_count st of None \<Rightarrow> ''-''
            | Some x \<Rightarrow> if dbl x = 0 then ''-'' else formatNumber x)
       \<and> (engagement_data r = None \<longrightarrow>
            engagementChart s' = engagementChart s
            \<and> filter (\<lambda>c. canvas c = ''engagementChart'') (created s')
                = filter (\<lambda>c. canvas c = ''engagementChart'') (created s))
       \<and> (\<forall>d. engagement_data r = Some d \<longrightarrow>
            (\<exists>c. engagementChart s' = Some c \<and> c \<in> set (created s') \<and> length (created s) \<le> chart_id c
               \<and> chart_labels c = labels d \<and> chart_data c = vals d))
       \<and> (timing_data r = None \<longrightarrow>
            timingChart s' = timingChart s
            \<and> filter (\<lambda>c. canvas c = ''timingChart'') (created s')
                = filter (\<lambda>c. canvas c = ''timingChart'') (created s))
       \<and> (\<forall>d. timing_data r = Some d \<longrightarrow>
            (\<exists>c. timingChart s' = Some c \<and> c \<in> set (created s') \<and> length (created s) \<le> chart_id c
               \<and> chart_labels c = labels d \<and> chart_data c = vals d))
       \<and> or0 None = ''0''
       \<and> (dbl x = 0 \<longrightarrow> or0 (Some x) = ''0'')"
    using assms
    by (cases "engagement_data r"; cases "timing_data r")
      (simp_all add: displayResults_def Let_def shown_def truthy_def or0_def
        created_createEngagementChart created_createTimingChart
        variable_createEngagementChart variable_createTimingChart
        split: option.splits)
  have producer: "stats (aggregate requestedTypes st' es th) = Some st'"
    "Engagement \<notin> requestedTypes \<longrightarrow> engagement_data (aggregate requestedTypes st' es th) = None"
    "Engagement \<in> requestedTypes \<longrightarrow> engagement_data (aggregate requestedTypes st' es th) = Some es"
    "Timing \<notin> requestedTypes \<longrightarrow> timing_data (aggregate requestedTypes st' es th) = None"
    "Timing \<in> requestedTypes \<longrightarrow> timing_data (aggregate requestedTypes st' es th) = Some th"
    by (simp_all add: aggregate_def)
  have csv: "engagement_data r = None \<longrightarrow>
      csv_text r = Inr (csv_stats st) \<and> dashboard_csv_text r = Inr (dashboard_csv_stats st)"
    using assms by (simp add: csv_text_def dashboard_csv_text_def)
  have charts: "currentData db = Some r \<and> engagement_data r = None \<longrightarrow> createMainChart db = Inr db"
    "currentData db = Some r \<and> timing_data r = None \<longrightarrow> createTimingChartDashboard db = Inr db"
    by (simp_all add: createMainChart_def createTimingChartDashboard_def)
  have sheets: "currentAnalysisData p = Some r \<longrightarrow>
      requests (exportToGoogleSheets reply p)
        = requests p @ [(''/api/export/sheets'', SheetsRequest r)]"
    by (simp add: requests_exportToGoogleSheets)
  have apart: "currentAnalysisData p = Some r \<and> currentAnalysisData p' = Some r' \<and> r \<noteq> r' \<longrightarrow>
      last (requests (exportToGoogleSheets reply p))
        \<noteq> last (requests (exportToGoogleSheets reply' p'))"
    by (simp add: requests_exportToGoogleSheets)
  from shown producer csv charts sheets apart show ?thesis by (intro conjI) blast+
qed

theorem displayResults_unset_and_zero_witness:
  "stats (aggregate {Engagement} (stats0\<lparr>total_posts := Some (Dec 0 0)\<rparr>) engagement0 timing0)
     = Some (stats0\<lparr>total_posts := Some (Dec 0 0)\<rparr>)
   \<and> Timing \<notin> {Engagement} \<and> Engagement \<in> {Engagement}
   \<and> timing_data (aggregate {Engagement} (stats0\<lparr>total_posts := Some (Dec 0 0)\<rparr>) engagement0 timing0)
       = None
   \<and> engagement_data (aggregate {Engagement} (stats0\<lparr>total_posts := Some (Dec 0 0)\<rparr>) engagement0 timing0)
       = Some engagement0
   \<and> (\<exists>s'. displayResults
          (aggregate {Engagement} (stats0\<lparr>total_posts := Some (Dec 0 0)\<rparr>) engagement0 timing0)
          page_init = Inr s'
        \<and> totalPosts s' = ''-'' \<and> avgEngagement s' = ''4.50%''
        \<and> totalImpressions s' = ''1.5M'' \<and> followerCount s' = ''2.5K''
        \<and> timingChart s' = None
        \<and> (\<exists>c. engagementChart s' = Some c \<and> chart_labels c = labels engagement0))
   \<and> dbl (Dec 0 0) = 0 \<and> or0 (Some (Dec 0 0)) = ''0''
   \<and> currentAnalysisData (page_init\<lparr>currentAnalysisData :=
        Some (aggregate {Engagement} (stats0\<lparr>total_posts := Some (Dec 0 0)\<rparr>) engagement0 timing0)\<rparr>)
       = Some (aggregate {Engagement} (stats0\<lparr>total_posts := Some (Dec 0 0)\<rparr>) engagement0 timing0)
   \<and> currentAnalysisData (page_init\<lparr>currentAnalysisData :=
        Some (aggregate {Engagement} (stats0\<lparr>total_posts := None\<rparr>) engagement0 timing0)\<rparr>)
       = Some (aggregate {Engagement} (stats0\<lparr>total_posts := None\<rparr>) engagement0 timing0)
   \<and> aggregate {Engagement} (stats0\<lparr>total_posts := Some (Dec 0 0)\<rparr>) engagement0 timing0
       \<noteq> aggregate {Engagement} (stats0\<lparr>total_posts := None\<rparr>) engagement0 timing0
   \<and> last (requests (exportToGoogleSheets NetworkError (page_init\<lparr>currentAnalysisData :=
        Some (aggregate {Engagement} (stats0\<lparr>total_posts := Some (Dec 0 0)\<rparr>) engagement0 timing0)\<rparr>)))
       \<noteq> last (requests (exportToGoogleSheets NetworkError (page_init\<lparr>currentAnalysisData :=
        Some (aggregate {Engagement} (stats0\<lparr>total_posts := None\<rparr>) engagement0 timing0)\<rparr>)))"
proof -
  let ?z = "stats0\<lparr>total_posts := Some (Dec 0 0)\<rparr>"
  let ?u = "stats0\<lparr>total_posts := None\<rparr>"
  let ?r = "aggregate {Engagement} ?z engagement0 timing0"
  let ?r' = "aggregate {Engagement} ?u engagement0 timing0"
  let ?p = "page_init\<lparr>currentAnalysisData := Some ?r\<rparr>"
  let ?p' = "page_init\<lparr>currentAnalysisData := Some ?r'\<rparr>"
  have z: "dbl (Dec 0 0) = 0" "dbl (Dec 1500000 0) \<noteq> 0" "dbl (Dec 2500 0) \<noteq> 0"
    by code_simp+
  have st: "stats ?r = Some ?z" by (simp add: aggregate_def)
  have ne: "?r \<noteq> ?r'" by (simp add: aggregate_def stats0_def)
  have cur: "currentAnalysisData ?p = Some ?r" "currentAnalysisData ?p' = Some ?r'" by simp_all
  note T = displayResults_unset_and_zero
    [OF st, where s = page_init and x = "Dec 0 0" and requestedTypes = "{Engagement}"
       and st' = ?z and es = engagement0 and th = timing0 and p = ?p and p' = ?p' and r' = ?r'
       and reply = NetworkError and reply' = NetworkError]
  note T1 = T [THEN conjunct1]
  note T2 = T [THEN conjunct2, THEN conjunct2]
  note T4 = T2 [THEN conjunct2, THEN conjunct2]
  note T9 = T4 [THEN conjunct2, THEN conjunct2, THEN conjunct2, THEN conjunct2, THEN conjunct2,
    THEN conjunct2]
  from T2 [THEN conjunct2, THEN conjunct1] have e: "engagement_data ?r = Some engagement0"
    by simp
  from T4 [THEN conjunct1] have tm: "timing_data ?r = None" by simp
  note producer = tm e
  from T9 cur ne have apart: "last (requests (exportToGoogleSheets NetworkError ?p))
      \<noteq> last (requests (exportToGoogleSheets NetworkError ?p'))"
    by (simp only: simp_thms)
  from T1 obtain s' where s': "displayResults ?r page_init = Inr s'"
    and t: "totalPosts s' =
           (case total_posts ?z of None \<Rightarrow> ''-'' | Some x \<Rightarrow> if dbl x = 0 then ''-'' else ToString x)"
      "avgEngagement s' =
           (case avg_engagement ?z of None \<Rightarrow> ''-''
            | Some x \<Rightarrow> if dbl x = 0 then ''-'' else toFixed 2 (dbl x) @ ''%'')"
      "totalImpressions s' =
           (case total_impressions ?z of None \<Rightarrow> ''-''
            | Some x \<Rightarrow> if dbl x = 0 then ''-'' else formatNumber x)"
      "followerCount s' =
           (case follower_count ?z of None \<Rightarrow> ''-''
            | Some x \<Rightarrow> if dbl x = 0 then ''-'' else formatNumber x)"
    and tn: "timing_data ?r = None \<longrightarrow>
            timingChart s' = timingChart page_init
            \<and> filter (\<lambda>c. canvas c = ''timingChart'') (created s')
                = filter (\<lambda>c. canvas c = ''timingChart'') (created page_init)"
    and en: "\<forall>d. engagement_data ?r = Some d \<longrightarrow>
            (\<exists>c. engagementChart s' = Some c \<and> c \<in> set (created s') \<and> length (created page_init) \<le> chart_id c
               \<and> chart_labels c = labels d \<and> chart_data c = vals d)"
    and o: "dbl (Dec 0 0) = 0 \<longrightarrow> or0 (Some (Dec 0 0)) = ''0''"
    by (elim exE conjE)
  from t have shown: "totalPosts s' = ''-''" "avgEngagement s' = ''4.50%''"
    "totalImpressions s' = ''1.5M''" "followerCount s' = ''2.5K''"
    by (simp_all add: stats0_def z dbl_example formatNumber_examples)
  from tn tm have "timingChart s' = timingChart page_init" by (simp only: simp_thms)
  then have tc: "timingChart s' = None" by (simp add: page_init_def)
  from en e obtain c where "engagementChart s' = Some c" and "chart_labels c = labels engagement0"
    by blast
  with s' shown tc have disp: "\<exists>s'. displayResults ?r page_init = Inr s'
        \<and> totalPosts s' = ''-'' \<and> avgEngagement s' = ''4.50%''
        \<and> totalImpressions s' = ''1.5M'' \<and> followerCount s' = ''2.5K''
        \<and> timingChart s' = None
        \<and> (\<exists>c. engagementChart s' = Some c \<and> chart_labels c = labels engagement0)"
    by blast
  from o z have o': "or0 (Some (Dec 0 0)) = ''0''" by simp
  have m: "Timing \<notin> {Engagement}" "Engagement \<in> {Engagement}" by simp_all
  from st m tm e disp z(1) o' cur ne apart show ?thesis by (intro conjI)
qed

subsection \<open>C8: the header row and the file name\<close>

lemma csv_loop_extends: "csv_loop i ls vs csv = Inr out \<Longrightarrow> \<exists>rest. out = csv @ rest"
proof (induction i ls vs csv rule: csv_loop.induct)
  case (1 i ls vs csv)
  show ?case
  proof (cases "i < length ls")
    case False
    with "1.prems" show ?thesis by (subst (asm) csv_loop.simps) simp
  next
    case True
    with "1.prems" obtain v where v: "vs = Some v"
      by (subst (asm) csv_loop.simps) (auto split: option.splits)
    let ?row = "ls ! i @ '','' @ (if i < length v then ToString (v ! i) else ''undefined'') @ NL"
    from "1.prems" True v have "csv_loop (Suc i) ls vs (csv @ ?row) = Inr out"
      by (subst (asm) csv_loop.simps) simp
    with "1.IH" [OF True v] obtain rest where "out = (csv @ ?row) @ rest" by blast
    then show ?thesis by simp
  qed
qed

lemma csv_text_header: "csv_text r = Inr csv \<Longrightarrow> \<exists>rest. csv = hdr_csv @ NL @ rest"
proof -
  assume a: "csv_text r = Inr csv"
  then obtain st where st: "stats r = Some st" by (auto simp: csv_text_def split: option.splits)
  have stats: "\<exists>rest. csv_stats st = hdr_csv @ NL @ rest" by (simp add: csv_stats_rows)
  show ?thesis
  proof (cases "engagement_data r")
    case None
    with a st stats show ?thesis by (simp add: csv_text_def)
  next
    case (Some ed)
    with a st obtain ls where "csv_loop 0 ls (vals ed) (csv_stats st @ NL @ hdr_engagement @ NL) = Inr csv"
      by (auto simp: csv_text_def split: option.splits)
    then obtain rest where "csv = (csv_stats st @ NL @ hdr_engagement @ NL) @ rest"
      using csv_loop_extends by blast
    with stats show ?thesis by auto
  qed
qed

lemma dashboard_loop_extends:
  "dashboard_loop i ls vs csv = Inr out \<Longrightarrow> \<exists>rest. out = csv @ rest"
proof (induction i ls vs csv rule: dashboard_loop.induct)
  case (1 i ls vs csv)
  show ?case
  proof (cases "i < length ls")
    case False
    with "1.prems" show ?thesis by (subst (asm) dashboard_loop.simps) simp
  next
    case True
    with "1.prems" obtain v where v: "vs = Some v"
      by (subst (asm) dashboard_loop.simps) (auto split: option.splits)
    let ?row = "ls ! i @ '','' @ or0 (nth_opt v i) @ NL"
    from "1.prems" True v have "dashboard_loop (Suc i) ls vs (csv @ ?row) = Inr out"
      by (subst (asm) dashboard_loop.simps) simp
    with "1.IH" [OF True v] obtain rest where "out = (csv @ ?row) @ rest" by blast
    then show ?thesis by simp
  qed
qed

lemma dashboard_csv_text_header:
  "dashboard_csv_text r = Inr csv \<Longrightarrow> \<exists>rest. csv = hdr_dashboard @ NL @ rest"
proof -
  assume a: "dashboard_csv_text r = Inr csv"
  then obtain st where st: "stats r = Some st"
    by (auto simp: dashboard_csv_text_def split: option.splits)
  have stats: "\<exists>rest. dashboard_csv_stats st = hdr_dashboard @ NL @ rest"
    by (simp add: dashboard_csv_stats_rows)
  show ?thesis
  proof (cases "\<exists>ed ls. engagement_data r = Some ed \<and> labels ed = Some ls")
    case False
    with a st have "csv = dashboard_csv_stats st"
      by (auto simp: dashboard_csv_text_def split: option.splits)
    with stats show ?thesis by simp
  next
    case True
    then obtain ed ls where "engagement_data r = Some ed" and "labels ed = Some ls" by blast
    with a st have "dashboard_loop 0 ls (vals ed)
        (dashboard_csv_stats st @ NL @ hdr_dashboard_engagement @ NL) = Inr csv"
      by (simp add: dashboard_csv_text_def)
    then obtain rest where "csv = (dashboard_csv_stats st @ NL @ hdr_dashboard_engagement @ NL) @ rest"
      using dashboard_loop_extends by blast
    with stats show ?thesis by auto
  qed
qed

text \<open>
  The dashboard's \<^verbatim>\<open>exportData\<close> is laid out like \<^verbatim>\<open>exportToCSV\<close>, with a two-column
  header of its own (dashboard.js line 394, \<open>hdr_dashboard\<close>).
\<close>

lemma dashboard_csv_text_result0_rows:
  "dashboard_csv_text result0 =
     Inr (unrows [hdr_dashboard, lbl_total_posts @ '',12'', lbl_total_likes @ '',7'',
                  lbl_total_comments @ '',3'', lbl_avg_engagement @ '',4.5'',
                  [], hdr_dashboard_engagement, ''2024-01-01,5'', ''2024-01-02,2.5''])"
  by code_simp

text \<open>
  C8: the CSV export is comma-separated UTF-8 text whose first row is the two-column header
  of main.js line 233 (\<open>hdr_csv\<close>, the bytes of \<^verbatim>\<open>U+30C7 U+30FC U+30BF U+7A2E U+5225\<close>, a
  comma and \<^verbatim>\<open>U+5024\<close>), and the name of the downloaded file contains the current date.

  Whenever \<^verbatim>\<open>exportToCSV\<close> runs with a stored result and downloads, it downloads one
  file: its text begins with \<open>hdr_csv\<close> and a line break, and its name is
  \<^verbatim>\<open>sns_analysis_\<close>, the date of the clock as \<^verbatim>\<open>YYYY-MM-DD\<close> (in UTC, as
  \<^verbatim>\<open>toISOString\<close> gives it) and \<^verbatim>\<open>.csv\<close>. The header has one comma, so two columns,
  and no line break. The dashboard's \<^verbatim>\<open>exportData\<close> does the same with an equivalent
  two-column header, \<open>hdr_dashboard\<close>, and the name \<^verbatim>\<open>sns_analysis_dashboard_\<close>, the
  date and \<^verbatim>\<open>.csv\<close>.
\<close>

theorem export_header_and_file_name:
  assumes "currentAnalysisData s = Some r" and "exportToCSV now s = Inr s'"
    and "currentData d = Some r'" and "exportData now d = Inr d'"
  shows "(\<exists>rest. downloads s' = downloads s @
            [(''sns_analysis_''
                @ (if year now \<le> 9999 then pad 4 (year now) else ''+'' @ pad 6 (year now))
                @ ''-'' @ pad 2 (month now) @ ''-'' @ pad 2 (day now) @ ''.csv'',
              hdr_csv @ NL @ rest)])
       \<and> (\<exists>rest. downloads d' = downloads d @
            [(''sns_analysis_dashboard_''
                @ (if year now \<le> 9999 then pad 4 (year now) else ''+'' @ pad 6 (year now))
                @ ''-'' @ pad 2 (month now) @ ''-'' @ pad 2 (day now) @ ''.csv'',
              hdr_dashboard @ NL @ rest)])
       \<and> length (filter (\<lambda>c. c = CHR '','') hdr_csv) = 1
       \<and> CHR 0x0A \<notin> set hdr_csv
       \<and> length (filter (\<lambda>c. c = CHR '','') hdr_dashboard) = 1
       \<and> CHR 0x0A \<notin> set hdr_dashboard"
proof -
  from assms(1,2) obtain csv where csv: "csv_text r = Inr csv"
    by (cases "csv_text r") (simp_all add: exportToCSV_def)
  then obtain rest where rest: "csv = hdr_csv @ NL @ rest" using csv_text_header by blast
  from assms(1,2) csv
  have "s' = download (''sns_analysis_'' @ split_first (CHR ''T'') (toISOString now) @ ''.csv'') csv s"
    by (simp add: exportToCSV_def)
  then have 1: "downloads s' = downloads s @
            [(''sns_analysis_''
                @ (if year now \<le> 9999 then pad 4 (year now) else ''+'' @ pad 6 (year now))
                @ ''-'' @ pad 2 (month now) @ ''-'' @ pad 2 (day now) @ ''.csv'',
              hdr_csv @ NL @ rest)]"
    using rest by (simp add: download_def iso_date)
  from assms(3,4) obtain dcsv where dcsv: "dashboard_csv_text r' = Inr dcsv"
    by (cases "dashboard_csv_text r'") (simp_all add: exportData_def)
  then obtain drest where drest: "dcsv = hdr_dashboard @ NL @ drest"
    using dashboard_csv_text_header by blast
  from assms(3,4) dcsv
  have "d' = download (''sns_analysis_dashboard_'' @ split_first (CHR ''T'') (toISOString now) @ ''.csv'') dcsv d"
    by (simp add: exportData_def)
  then have 2: "downloads d' = downloads d @
            [(''sns_analysis_dashboard_''
                @ (if year now \<le> 9999 then pad 4 (year now) else ''+'' @ pad 6 (year now))
                @ ''-'' @ pad 2 (month now) @ ''-'' @ pad 2 (day now) @ ''.csv'',
              hdr_dashboard @ NL @ drest)]"
    using drest by (simp add: download_def iso_date)
  have "length (filter (\<lambda>c. c = CHR '','') hdr_csv) = 1" and "CHR 0x0A \<notin> set hdr_csv"
    and "length (filter (\<lambda>c. c = CHR '','') hdr_dashboard) = 1" and "CHR 0x0A \<notin> set hdr_dashboard"
    by (simp_all add: hdr_csv_def hdr_dashboard_def)
  with 1 2 show ?thesis by blast
qed

lemma pad_examples:
  "pad 4 2026 = ''2026''"
  "pad 2 11 = ''11''"
  "pad 2 2 = ''02''"
  by code_simp+

lemma dashboard_csv_text_result0: "\<not> isl (dashboard_csv_text result0)"
  by code_simp

theorem export_header_and_file_name_witness:
  "currentAnalysisData (page_init\<lparr>currentAnalysisData := Some result0\<rparr>) = Some result0
   \<and> currentData (dashboard_init (Some result0) True True) = Some result0
   \<and> (\<exists>s' rest. exportToCSV date0 (page_init\<lparr>currentAnalysisData := Some result0\<rparr>) = Inr s'
        \<and> downloads s' = [(''sns_analysis_2026-11-02.csv'', hdr_csv @ NL @ rest)])
   \<and> (\<exists>d' rest. exportData date0 (dashboard_init (Some result0) True True) = Inr d'
        \<and> downloads d' = [(''sns_analysis_dashboard_2026-11-02.csv'', hdr_dashboard @ NL @ rest)])"
proof -
  let ?s = "page_init\<lparr>currentAnalysisData := Some result0\<rparr>"
  let ?d = "dashboard_init (Some result0) True True"
  have cur: "currentAnalysisData ?s = Some result0" by simp
  have curd: "currentData ?d = Some result0" by (simp add: dashboard_init_def)
  from exportToCSV_download [OF cur csv_text_result0, of date0]
  obtain s' where s': "exportToCSV date0 ?s = Inr s'" by blast
  obtain dcsv where "dashboard_csv_text result0 = Inr dcsv"
    using dashboard_csv_text_result0 by (cases "dashboard_csv_text result0") simp_all
  from exportData_download [OF curd this, of date0]
  obtain d' where d': "exportData date0 ?d = Inr d'" by blast
  from export_header_and_file_name [OF cur s' curd d']
  obtain rest drest where "downloads s' = downloads ?s @
      [(''sns_analysis_''
          @ (if year date0 \<le> 9999 then pad 4 (year date0) else ''+'' @ pad 6 (year date0))
          @ ''-'' @ pad 2 (month date0) @ ''-'' @ pad 2 (day date0) @ ''.csv'',
        hdr_csv @ NL @ rest)]"
    and "downloads d' = downloads ?d @
      [(''sns_analysis_dashboard_''
          @ (if year date0 \<le> 9999 then pad 4 (year date0) else ''+'' @ pad 6 (year date0))
          @ ''-'' @ pad 2 (month date0) @ ''-'' @ pad 2 (day date0) @ ''.csv'',
        hdr_dashboard @ NL @ drest)]"
    by blast
  then have "downloads s' = [(''sns_analysis_2026-11-02.csv'', hdr_csv @ NL @ rest)]"
    and "downloads d' = [(''sns_analysis_dashboard_2026-11-02.csv'', hdr_dashboard @ NL @ drest)]"
    by (simp_all add: date0_def pad_examples page_init_def dashboard_init_def)
  with s' d' cur curd show ?thesis by blast
qed


subsection \<open>C9: the abbreviation of large numbers\<close>




subsection \<open>C10: one live chart per canvas\<close>

lemma destroyed_createEngagementChart:
  "destroyed (createEngagementChart d s) =
     (case engagementChart s of Some c \<Rightarrow> chart_id c # destroyed s | None \<Rightarrow> destroyed s)"
  by (simp add: createEngagementChart_def Let_def register_def destroy_def split: option.splits)

lemma destroyed_createTimingChart:
  "destroyed (createTimingChart d s) =
     (case timingChart s of Some c \<Rightarrow> chart_id c # destroyed s | None \<Rightarrow> destroyed s)"
  by (simp add: createTimingChart_def Let_def register_def destroy_def split: option.splits)

lemma destroyed_createMainChart:
  "createMainChart s = Inr s' \<Longrightarrow> mainChart s = Some c \<Longrightarrow> s' \<noteq> s \<Longrightarrow>
   chart_id c \<in> set (destroyed s')"
  by (auto simp: createMainChart_def Let_def register_def destroy_def split: option.splits if_splits)

lemma destroyed_createTimingChartDashboard:
  "createTimingChartDashboard s = Inr s' \<Longrightarrow> timingChart_dashboard s = Some c \<Longrightarrow> s' \<noteq> s \<Longrightarrow>
   chart_id c \<in> set (destroyed s')"
  by (auto simp: createTimingChartDashboard_def Let_def register_def destroy_def
      split: option.splits if_splits)

text \<open>
  C10: after any sequence of calls of the functions that make charts, every canvas has at
  most one live chart; before a chart is made, the chart in the variable of its canvas is
  destroyed; and the variable holds the chart made last.

  For the analysis page the calls are those of \<^verbatim>\<open>createEngagementChart\<close>,
  \<^verbatim>\<open>createTimingChart\<close> and \<^verbatim>\<open>displayResults\<close>, from the state in which the page
  loads; for the dashboard those of \<^verbatim>\<open>createMainChart\<close> and
  \<^verbatim>\<open>createTimingChartDashboard\<close>. \<open>live_on cv\<close> lists the charts constructed on the
  canvas \<open>cv\<close> and not destroyed; \<open>latest_on cv\<close> is the chart constructed last on it. The
  last four conjuncts are the single step: the chart a variable holds is among the destroyed
  ones once the function has made a new chart.
\<close>

theorem one_live_chart_per_canvas:
  "length (live_on cv (page_run calls)) \<le> 1
   \<and> live_on ''engagementChart'' (page_run calls) =
       (case engagementChart (page_run calls) of None \<Rightarrow> [] | Some c \<Rightarrow> [c])
   \<and> latest_on ''engagementChart'' (page_run calls) = engagementChart (page_run calls)
   \<and> live_on ''timingChart'' (page_run calls) =
       (case timingChart (page_run calls) of None \<Rightarrow> [] | Some c \<Rightarrow> [c])
   \<and> latest_on ''timingChart'' (page_run calls) = timingChart (page_run calls)
   \<and> length (live_on cv (dashboard_run data cm ct dcalls)) \<le> 1
   \<and> live_on ''mainChart'' (dashboard_run data cm ct dcalls) =
       (case mainChart (dashboard_run data cm ct dcalls) of None \<Rightarrow> [] | Some c \<Rightarrow> [c])
   \<and> latest_on ''mainChart'' (dashboard_run data cm ct dcalls) = mainChart (dashboard_run data cm ct dcalls)
   \<and> live_on ''timingChart'' (dashboard_run data cm ct dcalls) =
       (case timingChart_dashboard (dashboard_run data cm ct dcalls) of None \<Rightarrow> [] | Some c \<Rightarrow> [c])
   \<and> latest_on ''timingChart'' (dashboard_run data cm ct dcalls) =
       timingChart_dashboard (dashboard_run data cm ct dcalls)
   \<and> (engagementChart s = Some c \<longrightarrow> chart_id c \<in> set (destroyed (createEngagementChart series s)))
   \<and> (timingChart s = Some c \<longrightarrow> chart_id c \<in> set (destroyed (createTimingChart series s)))
   \<and> (mainChart d = Some c \<and> createMainChart d = Inr d' \<and> d' \<noteq> d \<longrightarrow>
        chart_id c \<in> set (destroyed d'))
   \<and> (timingChart_dashboard d = Some c \<and> createTimingChartDashboard d = Inr d' \<and> d' \<noteq> d \<longrightarrow>
        chart_id c \<in> set (destroyed d'))"
proof -
  let ?p = "page_run calls" and ?d = "dashboard_run data cm ct dcalls"
  have "page_inv ?p" by (rule page_inv_run)
  then have pk: "charts_ok ?p"
    and pe: "owns ''engagementChart'' (engagementChart ?p) ?p"
    and pt: "owns ''timingChart'' (timingChart ?p) ?p"
    and pc: "\<forall>c \<in> set (created ?p). canvas c = ''engagementChart'' \<or> canvas c = ''timingChart''"
    unfolding page_inv_def by blast+
  have "dashboard_inv ?d" by (rule dashboard_inv_run)
  then have dk: "charts_ok ?d"
    and dm: "owns ''mainChart'' (mainChart ?d) ?d"
    and dt: "owns ''timingChart'' (timingChart_dashboard ?d) ?d"
    and dc: "\<forall>c \<in> set (created ?d). canvas c = ''mainChart'' \<or> canvas c = ''timingChart''"
    unfolding dashboard_inv_def by blast+
  have p1: "length (live_on cv ?p) \<le> 1" by (rule inv_at_most_one [OF pk pe pt pc])
  have d1: "length (live_on cv ?d) \<le> 1" by (rule inv_at_most_one [OF dk dm dt dc])
  have s1: "engagementChart s = Some c \<longrightarrow> chart_id c \<in> set (destroyed (createEngagementChart series s))"
    by (simp add: destroyed_createEngagementChart)
  have s2: "timingChart s = Some c \<longrightarrow> chart_id c \<in> set (destroyed (createTimingChart series s))"
    by (simp add: destroyed_createTimingChart)
  have s3: "mainChart d = Some c \<and> createMainChart d = Inr d' \<and> d' \<noteq> d \<longrightarrow>
        chart_id c \<in> set (destroyed d')"
    using destroyed_createMainChart [of d d' c] by blast
  have s4: "timingChart_dashboard d = Some c \<and> createTimingChartDashboard d = Inr d' \<and> d' \<noteq> d \<longrightarrow>
        chart_id c \<in> set (destroyed d')"
    using destroyed_createTimingChartDashboard [of d d' c] by blast
  from pe pt dm dt show ?thesis
    unfolding owns_def using p1 d1 s1 s2 s3 s4 by blast
qed
lemma dashboard_run_example:
  "map chart_id (live_on ''timingChart''
      (dashboard_run (Some result0) True True
         [CreateTimingChartDashboard, CreateMainChart, CreateTimingChartDashboard])) = [2]"
  "destroyed (dashboard_run (Some result0) True True
         [CreateTimingChartDashboard, CreateMainChart, CreateTimingChartDashboard]) = [0]"
  by code_simp+

theorem one_live_chart_per_canvas_witness:
  "length (live_on ''engagementChart''
      (page_run [DisplayResults result0, CreateEngagementChart engagement0])) \<le> 1
   \<and> map chart_id (live_on ''engagementChart''
      (page_run [DisplayResults result0, CreateEngagementChart engagement0])) = [2]
   \<and> destroyed (page_run [DisplayResults result0, CreateEngagementChart engagement0]) = [0]
   \<and> length (live_on ''engagementChart''
      (dashboard_run (Some result0) True True
         [CreateTimingChartDashboard, CreateMainChart, CreateTimingChartDashboard])) \<le> 1
   \<and> map chart_id (live_on ''timingChart''
      (dashboard_run (Some result0) True True
         [CreateTimingChartDashboard, CreateMainChart, CreateTimingChartDashboard])) = [2]
   \<and> engagementChart (page_run [DisplayResults result0]) \<noteq> None
   \<and> destroyed (createEngagementChart engagement0 (page_run [DisplayResults result0])) = [0]"
proof -
  have e: "engagementChart (page_run [DisplayResults result0]) \<noteq> None"
    and f: "destroyed (createEngagementChart engagement0 (page_run [DisplayResults result0])) = [0]"
    by code_simp+
  from one_live_chart_per_canvas
    [of "''engagementChart''" "[DisplayResults result0, CreateEngagementChart engagement0]"
        "Some result0" True True "[CreateTimingChartDashboard, CreateMainChart, CreateTimingChartDashboard]"]
  have "length (live_on ''engagementChart''
      (page_run [DisplayResults result0, CreateEngagementChart engagement0])) \<le> 1"
    and "length (live_on ''engagementChart''
      (dashboard_run (Some result0) True True
         [CreateTimingChartDashboard, CreateMainChart, CreateTimingChartDashboard])) \<le> 1"
    by blast+
  with e f page_run_example dashboard_run_example show ?thesis by simp
qed

end
